theory Spec2Isabelle
  imports Main "HOL-Library.AList"
begin

section \<open>Values, exceptions and observable effects\<close>

text \<open>
  The portal (\<^verbatim>\<open>app.py\<close>) and the signup form (\<^verbatim>\<open>signup.py\<close>) are Python scripts
  over a remote spreadsheet. Cell values, form values and configuration values are dynamically
  typed; the model keeps the cases the code distinguishes. \<open>PNaN\<close> is the value a data frame
  reports for a key that a row dict lacks. Strings are lists of 8-bit characters, read as the
  code points below 256.
\<close>

datatype pyval = PNone | PBool bool | PInt int | PStr string | PNaN

text \<open>Python truthiness (\<^verbatim>\<open>if x\<close>, \<^verbatim>\<open>not x\<close>).\<close>

fun truthy :: "pyval \<Rightarrow> bool" where
  "truthy PNone = False"
| "truthy (PBool b) = b"
| "truthy (PInt i) = (i \<noteq> 0)"
| "truthy (PStr s) = (s \<noteq> [])"
| "truthy PNaN = True"

text \<open>Python \<^verbatim>\<open>==\<close> on these values: NaN equals nothing, a bool compares as 0 or 1.\<close>

fun py_eq :: "pyval \<Rightarrow> pyval \<Rightarrow> bool" where
  "py_eq PNaN _ = False"
| "py_eq _ PNaN = False"
| "py_eq (PBool b) (PInt i) = ((if b then 1 else 0) = i)"
| "py_eq (PInt i) (PBool b) = (i = (if b then 1 else 0))"
| "py_eq a b = (a = b)"

text \<open>
  Every exception the code can meet is a value. \<open>APIError\<close> carries the text that
  \<^verbatim>\<open>str(e)\<close> gives; \<open>OtherException\<close> stands for any exception that is not one of the
  named classes (a network failure, an SMTP failure).
\<close>

datatype exn =
    APIError string
  | WorksheetNotFound string
  | KeyError string
  | IndexError
  | ValueError
  | GSpreadException string
  | SecretsUnavailable
  | OtherException string

text \<open>A row as \<^verbatim>\<open>get_all_records\<close> reports it: a dict from column header to value, in
  column order. A snapshot is the list of the rows below the header.\<close>

type_synonym rowdict = "(string \<times> pyval) list"
type_synonym snapshot = "rowdict list"

text \<open>What a run shows and does, in order: the calls to the spreadsheet service, the mails
  handed to the mail provider, the messages put on the page, and the request to rerun.\<close>

datatype level = Success | Info | Warning | Error

datatype api_call =
    GetAllRecords
  | RowValues nat
  | Clear
  | AppendRow "pyval list"
  | DeleteRows nat
  | UpdateRange string "pyval list list"
  | UpdateCell nat nat pyval
  | AddCols nat
  | OpenWorksheet
  | AddWorksheet nat nat

datatype event =
    Remote string api_call
  | MailAttempt pyval string string
  | Show level
  | Rerun

fun is_fetch :: "string \<Rightarrow> event \<Rightarrow> bool" where
  "is_fetch name (Remote n GetAllRecords) = (n = name)"
| "is_fetch name _ = False"

fun is_remote :: "event \<Rightarrow> bool" where
  "is_remote (Remote n c) = True"
| "is_remote _ = False"

section \<open>Session state and the read cache\<close>

text \<open>
  \<^verbatim>\<open>st.session_state\<close>: the two cache dicts (snapshot and fetch time per sheet name), the
  names whose worksheet handle is kept under \<^verbatim>\<open>worksheet_<name>\<close>, and the login fields.
  \<^verbatim>\<open>datetime.now()\<close> is a count of microseconds.
\<close>

record session =
  sheet_data_cache :: "string \<rightharpoonup> snapshot"
  last_sheet_refresh :: "string \<rightharpoonup> int"
  worksheet_handles :: "string set"
  logged_in :: bool
  user_role :: "string option"
  user_email :: "string option"

definition CACHE_DURATION :: int where
  "CACHE_DURATION = 5"

definition timedelta_minutes :: "int \<Rightarrow> int" where
  "timedelta_minutes m = m * 60 * 1000000"

text \<open>\<^verbatim>\<open>needle in hay\<close> on strings.\<close>

fun starts_with :: "string \<Rightarrow> string \<Rightarrow> bool" where
  "starts_with [] s = True"
| "starts_with (p # ps) [] = False"
| "starts_with (p # ps) (c # cs) = (p = c \<and> starts_with ps cs)"

fun py_in :: "string \<Rightarrow> string \<Rightarrow> bool" where
  "py_in needle [] = (needle = [])"
| "py_in needle (c # cs) = (starts_with needle (c # cs) \<or> py_in needle cs)"

text \<open>The test of lines 96-98: both dicts hold the name and the snapshot is younger than
  five minutes. Python evaluates the three conjuncts left to right.\<close>

definition cache_valid :: "int \<Rightarrow> string \<Rightarrow> session \<Rightarrow> bool" where
  "cache_valid current_time sheet_name st =
     (case sheet_data_cache st sheet_name of
        None \<Rightarrow> False
      | Some snap \<Rightarrow>
          (case last_sheet_refresh st sheet_name of
             None \<Rightarrow> False
           | Some t \<Rightarrow> current_time - t < timedelta_minutes CACHE_DURATION))"

text \<open>
  The two \<^verbatim>\<open>except\<close> branches return the stale snapshot after a warning whose text reads
  \<^verbatim>\<open>last_sheet_refresh[sheet_name]\<close>: without that entry the handler itself raises
  \<^verbatim>\<open>KeyError\<close>.
\<close>

definition stale_fallback ::
  "string \<Rightarrow> session \<Rightarrow> snapshot \<Rightarrow> event list \<Rightarrow> (exn + snapshot) \<times> session \<times> event list" where
  "stale_fallback sheet_name st snap evs =
     (case last_sheet_refresh st sheet_name of
        None \<Rightarrow> (Inl (KeyError sheet_name), st, evs)
      | Some t \<Rightarrow> (Inr snap, st, evs @ [Show Warning]))"

text \<open>
  \<^verbatim>\<open>get_cached_sheet_data(sheet_name, worksheet)\<close>. The argument \<open>fetch\<close> is what
  \<^verbatim>\<open>worksheet.get_all_records()\<close> does if it is called: the rows, or the exception.
\<close>

definition get_cached_sheet_data ::
  "int \<Rightarrow> string \<Rightarrow> (exn + snapshot) \<Rightarrow> session \<Rightarrow> (exn + snapshot) \<times> session \<times> event list" where
  "get_cached_sheet_data current_time sheet_name fetch st =
     (if cache_valid current_time sheet_name st
      then (case sheet_data_cache st sheet_name of
              Some snap \<Rightarrow> (Inr snap, st, [])
            | None \<Rightarrow> (Inl (KeyError sheet_name), st, []))
      else
        (case fetch of
           Inr data \<Rightarrow>
             (Inr data,
              st\<lparr>sheet_data_cache := (sheet_data_cache st)(sheet_name \<mapsto> data),
                 last_sheet_refresh := (last_sheet_refresh st)(sheet_name \<mapsto> current_time)\<rparr>,
              [Remote sheet_name GetAllRecords])
         | Inl (APIError msg) \<Rightarrow>
             (if py_in ''429'' msg
              then (case sheet_data_cache st sheet_name of
                      Some snap \<Rightarrow> stale_fallback sheet_name st snap [Remote sheet_name GetAllRecords]
                    | None \<Rightarrow>
                        (Inl (APIError msg), st, [Remote sheet_name GetAllRecords, Show Error]))
              else (Inl (APIError msg), st, [Remote sheet_name GetAllRecords]))
         | Inl e \<Rightarrow>
             (case sheet_data_cache st sheet_name of
                Some snap \<Rightarrow> stale_fallback sheet_name st snap [Remote sheet_name GetAllRecords]
              | None \<Rightarrow> (Inl e, st, [Remote sheet_name GetAllRecords]))))"

definition clear_cache :: "session \<Rightarrow> session" where
  "clear_cache st = st\<lparr>sheet_data_cache := Map.empty, last_sheet_refresh := Map.empty\<rparr>"

text \<open>The session starts with both dicts empty and nobody logged in (lines 13-19).\<close>

definition initial_session :: session where
  "initial_session =
     \<lparr>sheet_data_cache = Map.empty, last_sheet_refresh = Map.empty, worksheet_handles = {},
      logged_in = False, user_role = None, user_email = None\<rparr>"


section \<open>The remote spreadsheet\<close>

text \<open>
  A worksheet is its grid of cells, row 1 first. The operations below are the calls the code
  makes on a \<^verbatim>\<open>gspread\<close> worksheet; a blank cell is the empty string.
\<close>

type_synonym worksheet = "pyval list list"

fun show_nat :: "nat \<Rightarrow> string" where
  "show_nat n =
     (if n < 10 then [''0123456789'' ! n]
      else show_nat (n div 10) @ [''0123456789'' ! (n mod 10)])"

declare show_nat.simps [simp del]

definition show_int :: "int \<Rightarrow> string" where
  "show_int i = (if i < 0 then CHR ''-'' # show_nat (nat (- i)) else show_nat (nat i))"

text \<open>Python \<^verbatim>\<open>str(x)\<close>, as the f-strings and \<^verbatim>\<open>clean_string\<close> use it.\<close>

fun py_str :: "pyval \<Rightarrow> string" where
  "py_str PNone = ''None''"
| "py_str (PBool b) = (if b then ''True'' else ''False'')"
| "py_str (PInt i) = show_int i"
| "py_str (PStr s) = s"
| "py_str PNaN = ''nan''"

text \<open>The text the service reports for a cell.\<close>

fun cell_text :: "pyval \<Rightarrow> string" where
  "cell_text PNone = []"
| "cell_text (PBool b) = (if b then ''TRUE'' else ''FALSE'')"
| "cell_text (PInt i) = show_int i"
| "cell_text (PStr s) = s"
| "cell_text PNaN = []"

definition rstrip_blank :: "string list \<Rightarrow> string list" where
  "rstrip_blank xs = rev (dropWhile (\<lambda>s. s = []) (rev xs))"

text \<open>\<^verbatim>\<open>worksheet.row_values(n)\<close>: the texts of row \<open>n\<close> (1-based) without trailing blanks; the
  empty list for a row below the data.\<close>

definition row_values :: "worksheet \<Rightarrow> nat \<Rightarrow> string list" where
  "row_values ws n =
     (if 1 \<le> n \<and> n \<le> length ws then rstrip_blank (map cell_text (ws ! (n - 1))) else [])"

definition sheet_clear :: "worksheet \<Rightarrow> worksheet" where
  "sheet_clear ws = []"

definition append_row :: "worksheet \<Rightarrow> pyval list \<Rightarrow> worksheet" where
  "append_row ws vals = ws @ [vals]"

text \<open>\<^verbatim>\<open>worksheet.delete_rows(n)\<close>: row \<open>n\<close> (1-based) goes and the rows below move up.\<close>

definition delete_rows :: "worksheet \<Rightarrow> nat \<Rightarrow> exn + worksheet" where
  "delete_rows ws n =
     (if n = 0 then Inl (APIError ''400'') else Inr (take (n - 1) ws @ drop n ws))"

text \<open>\<^verbatim>\<open>worksheet.update('A<n>', [vals])\<close>: the cells of row \<open>n\<close> from column A on take
  \<open>vals\<close>; cells of the row to the right of them stay.\<close>

definition update_row_from_A :: "worksheet \<Rightarrow> nat \<Rightarrow> pyval list \<Rightarrow> exn + worksheet" where
  "update_row_from_A ws n vals =
     (if n = 0 then Inl (APIError ''400'')
      else if n \<le> length ws
      then Inr (ws[n - 1 := vals @ drop (length vals) (ws ! (n - 1))])
      else Inr (ws @ replicate (n - 1 - length ws) [] @ [vals]))"

definition pad :: "nat \<Rightarrow> pyval list \<Rightarrow> pyval list" where
  "pad n row = row @ replicate (n - length row) (PStr [])"

text \<open>\<^verbatim>\<open>worksheet.update_cell(row, col, value)\<close>, both 1-based.\<close>

definition update_cell :: "worksheet \<Rightarrow> nat \<Rightarrow> nat \<Rightarrow> pyval \<Rightarrow> exn + worksheet" where
  "update_cell ws r c v =
     (if r = 0 \<or> c = 0 then Inl (APIError ''400'')
      else
        (let grid = ws @ replicate (r - length ws) []
         in Inr (grid[r - 1 := (pad c (grid ! (r - 1)))[c - 1 := v] ])))"

text \<open>A Python dict built from key-value pairs: a repeated key keeps its first position and
  takes the last value.\<close>

definition py_dict :: "(string \<times> pyval) list \<Rightarrow> rowdict" where
  "py_dict ps = foldl (\<lambda>d (k, v). AList.update k v d) [] ps"

text \<open>\<^verbatim>\<open>row.get(key, default)\<close>.\<close>

definition dict_get :: "rowdict \<Rightarrow> string \<Rightarrow> pyval \<Rightarrow> pyval" where
  "dict_get d k dflt = (case map_of d k of Some v \<Rightarrow> v | None \<Rightarrow> dflt)"

text \<open>Whitespace as \<^verbatim>\<open>str.strip\<close> and \<^verbatim>\<open>str.split\<close> see it, among the code points below 256.\<close>

definition py_isspace :: "char \<Rightarrow> bool" where
  "py_isspace c = ((of_char c :: nat) \<in> {9, 10, 11, 12, 13, 28, 29, 30, 31, 32, 133, 160})"

definition py_strip :: "string \<Rightarrow> string" where
  "py_strip s = rev (dropWhile py_isspace (rev (dropWhile py_isspace s)))"

text \<open>The position of the first element that satisfies a test (\<^verbatim>\<open>.index[0]\<close> of a filtered
  frame, the first hit of a \<^verbatim>\<open>for i, row in enumerate(data)\<close> loop, \<^verbatim>\<open>list.index\<close>).\<close>

fun first_index :: "('a \<Rightarrow> bool) \<Rightarrow> 'a list \<Rightarrow> nat option" where
  "first_index P [] = None"
| "first_index P (x # xs) = (if P x then Some 0 else map_option Suc (first_index P xs))"

text \<open>Python \<^verbatim>\<open>int(text)\<close> on a decimal literal: surrounding whitespace, an optional sign,
  then digits only; \<open>None\<close> where it raises \<^verbatim>\<open>ValueError\<close>.\<close>

definition digit_value :: "char \<Rightarrow> nat option" where
  "digit_value c = first_index (\<lambda>d. d = c) ''0123456789''"

fun digits_value :: "nat \<Rightarrow> string \<Rightarrow> nat option" where
  "digits_value acc [] = Some acc"
| "digits_value acc (c # cs) =
     (case digit_value c of
        None \<Rightarrow> None
      | Some d \<Rightarrow> digits_value (10 * acc + d) cs)"

definition py_int :: "string \<Rightarrow> int option" where
  "py_int s =
     (case py_strip s of
        [] \<Rightarrow> None
      | c # cs \<Rightarrow>
          if c = CHR ''-'' then (if cs = [] then None else map_option (\<lambda>n. - int n) (digits_value 0 cs))
          else if c = CHR ''+'' then (if cs = [] then None else map_option int (digits_value 0 cs))
          else map_option int (digits_value 0 (c # cs)))"

text \<open>
  \<^verbatim>\<open>gspread.utils.numericise\<close> with the defaults \<^verbatim>\<open>get_all_records\<close> passes: a text with an
  underscore stays as it is, a text that \<^verbatim>\<open>int\<close> accepts becomes that integer, a blank stays
  the empty string. A text that only \<^verbatim>\<open>float\<close> accepts would become a floating-point number;
  floating-point values are outside this model and such a text stays text.
\<close>

definition numericise :: "string \<Rightarrow> pyval" where
  "numericise v =
     (if CHR ''_'' \<in> set v then PStr v
      else (case py_int v of Some i \<Rightarrow> PInt i | None \<Rightarrow> PStr v))"

text \<open>
  The records that \<^verbatim>\<open>get_all_records()\<close> builds from a grid: row 1 gives the keys (its texts
  without trailing blanks), every row below gives one dict over these keys, whose values are
  the texts the service reports for the cells, numericised; a row shorter than the header is
  blank there. So a cell holding the text \<^verbatim>\<open>007\<close> is reported as the integer 7 and a boolean
  cell as the text \<^verbatim>\<open>TRUE\<close>. When the call raises instead is said by \<open>records_raise\<close>.
\<close>

definition get_all_records :: "worksheet \<Rightarrow> snapshot" where
  "get_all_records ws =
     (case ws of
        [] \<Rightarrow> []
      | keys # vals \<Rightarrow>
          map (\<lambda>row. py_dict (zip (rstrip_blank (map cell_text keys))
                               (map (\<lambda>cell. numericise (cell_text cell))
                                  (pad (length (rstrip_blank (map cell_text keys))) row))))
            vals)"

text \<open>\<^verbatim>\<open>get_all_records()\<close> raises \<^verbatim>\<open>GSpreadException\<close> when the header names are not unique,
  which is also what it finds when some row has a cell beyond the header row (the header
  is then filled up with blank names).\<close>

definition records_raise :: "worksheet \<Rightarrow> bool" where
  "records_raise ws =
     (case ws of
        [] \<Rightarrow> False
      | keys # vals \<Rightarrow>
          \<not> distinct (rstrip_blank (map cell_text keys))
          \<or> list_ex (\<lambda>row. length (rstrip_blank (map cell_text keys))
                             < length (rstrip_blank (map cell_text row))) vals)"

text \<open>
  The world of one browser session: the secrets store (\<open>None\<close> when it cannot be read), the
  session state, the worksheets of the spreadsheet by title, and for each title the exception
  that the service raises at present, if any, on reading all its rows (\<open>read_fault\<close>), on
  reading its header row in the password functions (\<open>header_fault\<close>) and on an update made by
  the password functions (\<open>write_fault\<close>).
\<close>

record world =
  secrets :: "(string \<rightharpoonup> (string \<rightharpoonup> pyval)) option"
  session :: session
  remote :: "string \<rightharpoonup> worksheet"
  read_fault :: "string \<rightharpoonup> exn"
  header_fault :: "string \<rightharpoonup> exn"
  write_fault :: "string \<rightharpoonup> exn"

text \<open>\<^verbatim>\<open>worksheet.get_all_records()\<close> on the worksheet behind a handle.\<close>

definition ws_get_all_records :: "world \<Rightarrow> string \<Rightarrow> exn + snapshot" where
  "ws_get_all_records w name =
     (case read_fault w name of
        Some e \<Rightarrow> Inl e
      | None \<Rightarrow>
          (case remote w name of
             None \<Rightarrow> Inl (APIError ''404'')
           | Some ws \<Rightarrow>
               if records_raise ws then Inl (GSpreadException ''the header row is not unique'')
               else Inr (get_all_records ws)))"

section \<open>Worksheet resolver\<close>

text \<open>The dict \<^verbatim>\<open>headers\<close> of \<^verbatim>\<open>get_sheet\<close> (lines 138-150).\<close>

definition headers :: "string \<rightharpoonup> string list" where
  "headers =
     [''Teams'' \<mapsto> [''TeamName'', ''Description''],
      ''Participants_list'' \<mapsto>
        [''Name'', ''Email'', ''Preferred Name'', ''Experience Level'', ''Have GenAI Experience?'',
         ''Background'', ''Why do you want to join?'', ''What are your goals?'',
         ''Role Preference 1'', ''Role Preference 2'', ''Skills for Role'',
         ''Can participate daily?'', ''Best Time to Meet'', ''Has computer & internet?'',
         ''Comfortable with Tools'', ''Other Tools Known'', ''Anything else?'',
         ''Willing to mentor future cohorts?'', ''Status'', ''Team''],
      ''Projects'' \<mapsto>
        [''ProjectName'', ''AssignedTeam'', ''ProjectInfo'', ''CreatedAt'', ''CurrentPhase'',
         ''Progress''],
      ''Updates'' \<mapsto> [''UpdateID'', ''Timestamp'', ''Team'', ''Email'', ''Update'', ''Phase''],
      ''Comments'' \<mapsto> [''UpdateID'', ''Timestamp'', ''Email'', ''Comment''],
      ''Likes'' \<mapsto> [''UpdateID'', ''Email''],
      ''ProjectProgress'' \<mapsto>
        [''ProjectName'', ''Phase'', ''Status'', ''StartDate'', ''EndDate'', ''Comments''] ]"

text \<open>\<^verbatim>\<open>headers.get(sheet_name, [])\<close>.\<close>

definition expected_headers :: "string \<Rightarrow> string list" where
  "expected_headers sheet_name = (case headers sheet_name of Some h \<Rightarrow> h | None \<Rightarrow> [])"

text \<open>
  \<^verbatim>\<open>get_sheet(sheet_name)\<close>, lines 163-190, once the client and the spreadsheet are open. The
  result is the worksheet handle, here the title. A title without a kept handle is looked up
  (\<^verbatim>\<open>spreadsheet.worksheet\<close>); \<^verbatim>\<open>WorksheetNotFound\<close> leads to the creating branch. A kept handle
  whose worksheet is gone makes \<^verbatim>\<open>row_values\<close> fail.
\<close>

definition get_sheet :: "string \<Rightarrow> world \<Rightarrow> (exn + string) \<times> world \<times> event list" where
  "get_sheet sheet_name w =
     (let kept = sheet_name \<in> worksheet_handles (session w);
          keep = (\<lambda>v. v\<lparr>session := (session v)
                    \<lparr>worksheet_handles := insert sheet_name (worksheet_handles (session v))\<rparr>\<rparr>);
          expected = expected_headers sheet_name
      in
        if \<not> kept \<and> remote w sheet_name = None
        then
          (Inr sheet_name,
           keep (w\<lparr>remote := (remote w)(sheet_name \<mapsto> append_row [] (map PStr expected))\<rparr>),
           [Remote sheet_name OpenWorksheet,
            Remote sheet_name (AddWorksheet 1 (length expected)),
            Remote sheet_name (AppendRow (map PStr expected))])
        else
          (let w1 = (if kept then w else keep w);
               evs1 = (if kept then [] else [Remote sheet_name OpenWorksheet])
           in
             if sheet_name = ''Participants_list'' then (Inr sheet_name, w1, evs1)
             else
               (case remote w1 sheet_name of
                  None \<Rightarrow> (Inl (APIError ''404''), w1, evs1 @ [Remote sheet_name (RowValues 1)])
                | Some ws \<Rightarrow>
                    (let current_headers = row_values ws 1
                     in
                       if current_headers \<noteq> expected
                       then
                         (Inr sheet_name,
                          w1\<lparr>remote := (remote w1)
                               (sheet_name \<mapsto> append_row (sheet_clear ws) (map PStr expected))\<rparr>,
                          evs1 @ [Remote sheet_name (RowValues 1), Remote sheet_name Clear,
                                  Remote sheet_name (AppendRow (map PStr expected))])
                       else (Inr sheet_name, w1, evs1 @ [Remote sheet_name (RowValues 1)])))))"


section \<open>Participant passwords\<close>

text \<open>A data frame built from the row dicts has a column for every key that some row has,
  and reports NaN where a row lacks the key.\<close>

definition df_has_column :: "snapshot \<Rightarrow> string \<Rightarrow> bool" where
  "df_has_column data c = list_ex (\<lambda>row. c \<in> set (map fst row)) data"

definition df_cell :: "rowdict \<Rightarrow> string \<Rightarrow> pyval" where
  "df_cell row c = dict_get row c PNaN"

text \<open>The loop of \<^verbatim>\<open>add_password_column\<close>: one \<^verbatim>\<open>update_cell(i+2, num_cols, "")\<close> per record.\<close>

fun blank_cells :: "worksheet \<Rightarrow> nat list \<Rightarrow> nat \<Rightarrow> exn + worksheet" where
  "blank_cells ws [] num_cols = Inr ws"
| "blank_cells ws (i # is) num_cols =
     (case update_cell ws (i + 2) num_cols (PStr []) of
        Inl e \<Rightarrow> Inl e
      | Inr ws' \<Rightarrow> blank_cells ws' is num_cols)"

text \<open>\<^verbatim>\<open>add_password_column()\<close>, lines 1202-1226. Every exception ends in the handler, which
  reports it and returns \<^verbatim>\<open>False\<close>; what was written before it stays written. The reading
  of the header row can raise, and so can the first of the writes.\<close>

definition add_password_column :: "world \<Rightarrow> bool \<times> world \<times> event list" where
  "add_password_column w =
     (case get_sheet ''Participants_list'' w of
        (Inl e, w1, evs1) \<Rightarrow> (False, w1, evs1 @ [Show Error])
      | (Inr sheet, w1, evs1) \<Rightarrow>
          (case remote w1 sheet of
             None \<Rightarrow> (False, w1, evs1 @ [Remote sheet (RowValues 1), Show Error])
           | Some ws \<Rightarrow>
               if header_fault w1 sheet \<noteq> None
               then (False, w1, evs1 @ [Remote sheet (RowValues 1), Show Error])
               else
               (let hdrs = row_values ws 1
                in
                  if ''PasswordHash'' \<notin> set hdrs
                  then
                    if write_fault w1 sheet \<noteq> None
                    then (False, w1,
                          evs1 @ [Remote sheet (RowValues 1), Remote sheet (AddCols 1), Show Error])
                    else
                    (let hdrs' = hdrs @ [''PasswordHash''];
                         num_cols = length hdrs';
                         evs2 = evs1 @ [Remote sheet (RowValues 1), Remote sheet (AddCols 1),
                                        Remote sheet (UpdateRange ''A1'' [map PStr hdrs'])]
                     in
                       (case update_row_from_A ws 1 (map PStr hdrs') of
                          Inl e \<Rightarrow> (False, w1, evs2 @ [Show Error])
                        | Inr ws1 \<Rightarrow>
                            (let w2 = w1\<lparr>remote := (remote w1)(sheet \<mapsto> ws1)\<rparr>;
                                 evs3 = evs2 @ [Remote sheet GetAllRecords]
                             in
                               (case ws_get_all_records w2 sheet of
                                  Inl e \<Rightarrow> (False, w2, evs3 @ [Show Error])
                                | Inr data \<Rightarrow>
                                    (case blank_cells ws1 [0..<length data] num_cols of
                                       Inl e \<Rightarrow> (False, w2, evs3 @ [Show Error])
                                     | Inr ws2 \<Rightarrow>
                                         (True, w2\<lparr>remote := (remote w2)(sheet \<mapsto> ws2)\<rparr>,
                                          evs3 @ map (\<lambda>i. Remote sheet
                                                  (UpdateCell (i + 2) num_cols (PStr [])))
                                                 [0..<length data]))))))
                  else (True, w1, evs1 @ [Remote sheet (RowValues 1)]))))"

text \<open>The loop body shared by \<^verbatim>\<open>reset_participant_password\<close> (lines 1242-1256) and
  \<^verbatim>\<open>change_participant_password\<close> (lines 1320-1334), with a service that accepts the update:
  the first record whose \<^verbatim>\<open>Email\<close> equals the given one is rebuilt over the header list, its
  \<^verbatim>\<open>PasswordHash\<close> entry replaced, and written at sheet row \<open>i + 2\<close>. \<open>password_hash\<close> is what
  \<^verbatim>\<open>generate_password_hash\<close> returned. The update that the service refuses is added by
  \<open>try_write_password_hash\<close>.\<close>

definition write_password_hash ::
  "string \<Rightarrow> snapshot \<Rightarrow> string list \<Rightarrow> string \<Rightarrow> string \<Rightarrow> world
     \<Rightarrow> (exn + bool) \<times> world \<times> event list" where
  "write_password_hash sheet data hdrs email password_hash w =
     (case first_index (\<lambda>row. py_eq (dict_get row ''Email'' PNone) (PStr email)) data of
        None \<Rightarrow> (Inr False, w, [])
      | Some i \<Rightarrow>
          (let row = data ! i;
               row_data = map (\<lambda>header. dict_get row header (PStr [])) hdrs
           in
             (case first_index (\<lambda>h. h = ''PasswordHash'') hdrs of
                None \<Rightarrow> (Inl ValueError, w, [])
              | Some password_col \<Rightarrow>
                  (let row_data' = row_data[password_col := PStr password_hash];
                       ev = Remote sheet (UpdateRange (''A'' @ show_nat (i + 2)) [row_data'])
                   in
                     (case remote w sheet of
                        None \<Rightarrow> (Inl (APIError ''404''), w, [ev])
                      | Some ws \<Rightarrow>
                          (case update_row_from_A ws (i + 2) row_data' of
                             Inl e \<Rightarrow> (Inl e, w, [ev])
                           | Inr ws' \<Rightarrow>
                               (Inr True, w\<lparr>remote := (remote w)(sheet \<mapsto> ws')\<rparr>, [ev])))))))"

text \<open>The same loop with a service that may refuse the update: \<^verbatim>\<open>worksheet.update\<close> then
  raises, nothing is written, and the exception reaches the handler of lines 1257-1259 and
  1335-1337.\<close>

definition try_write_password_hash ::
  "string \<Rightarrow> snapshot \<Rightarrow> string list \<Rightarrow> string \<Rightarrow> string \<Rightarrow> world
     \<Rightarrow> (exn + bool) \<times> world \<times> event list" where
  "try_write_password_hash sheet data hdrs email password_hash w =
     (case write_password_hash sheet data hdrs email password_hash w of
        (Inr True, w', evs) \<Rightarrow>
          (case write_fault w sheet of
             None \<Rightarrow> (Inr True, w', evs)
           | Some e \<Rightarrow> (Inl e, w, evs))
      | (r, w', evs) \<Rightarrow> (r, w', evs))"

text \<open>Lines 1231-1239 and 1309-1317: read the records and the header row, and add the
  \<^verbatim>\<open>PasswordHash\<close> column when the header row lacks it. The result is the records (read before
  the column is added) with the header row (read after), or \<open>Inr None\<close> for the early
  \<^verbatim>\<open>return False\<close>.\<close>

definition read_participants ::
  "world \<Rightarrow> (exn + (string \<times> snapshot \<times> string list) option) \<times> world \<times> event list" where
  "read_participants w =
     (case get_sheet ''Participants_list'' w of
        (Inl e, w1, evs1) \<Rightarrow> (Inl e, w1, evs1)
      | (Inr sheet, w1, evs1) \<Rightarrow>
          (case ws_get_all_records w1 sheet of
             Inl e \<Rightarrow> (Inl e, w1, evs1 @ [Remote sheet GetAllRecords])
           | Inr data \<Rightarrow>
               (case remote w1 sheet of
                  None \<Rightarrow>
                    (Inl (APIError ''404''), w1,
                     evs1 @ [Remote sheet GetAllRecords, Remote sheet (RowValues 1)])
                | Some ws \<Rightarrow>
                    (case header_fault w1 sheet of
                       Some e \<Rightarrow>
                         (Inl e, w1,
                          evs1 @ [Remote sheet GetAllRecords, Remote sheet (RowValues 1)])
                     | None \<Rightarrow>
                    (let hdrs = row_values ws 1;
                         evs2 = evs1 @ [Remote sheet GetAllRecords, Remote sheet (RowValues 1)]
                     in
                       if ''PasswordHash'' \<notin> set hdrs
                       then
                         (case add_password_column w1 of
                            (False, w2, evs3) \<Rightarrow> (Inr None, w2, evs2 @ evs3)
                          | (True, w2, evs3) \<Rightarrow>
                              (case remote w2 sheet of
                                 None \<Rightarrow>
                                   (Inl (APIError ''404''), w2,
                                    evs2 @ evs3 @ [Remote sheet (RowValues 1)])
                               | Some ws2 \<Rightarrow>
                                   (Inr (Some (sheet, data, row_values ws2 1)), w2,
                                    evs2 @ evs3 @ [Remote sheet (RowValues 1)])))
                       else (Inr (Some (sheet, data, hdrs)), w1, evs2))))))"

text \<open>\<^verbatim>\<open>reset_participant_password(email, new_password)\<close>, lines 1228-1259.
  \<open>generate_password_hash\<close> is the salted hash the library returns for this call.\<close>

definition reset_participant_password ::
  "(string \<Rightarrow> string) \<Rightarrow> string \<Rightarrow> string \<Rightarrow> world \<Rightarrow> bool \<times> world \<times> event list" where
  "reset_participant_password generate_password_hash email new_password w =
     (case read_participants w of
        (Inl e, w1, evs1) \<Rightarrow> (False, w1, evs1 @ [Show Error])
      | (Inr None, w1, evs1) \<Rightarrow> (False, w1, evs1)
      | (Inr (Some (sheet, data, hdrs)), w1, evs1) \<Rightarrow>
          (case try_write_password_hash sheet data hdrs email
                  (generate_password_hash new_password) w1 of
             (Inl e, w2, evs2) \<Rightarrow> (False, w2, evs1 @ evs2 @ [Show Error])
           | (Inr b, w2, evs2) \<Rightarrow> (b, w2, evs1 @ evs2)))"

text \<open>\<^verbatim>\<open>check_participant_login(email, password)\<close>, lines 1261-1297. \<open>check_password_hash\<close> is
  the library's verification of a stored hash against a password; it may raise.\<close>

definition check_participant_login ::
  "(pyval \<Rightarrow> string \<Rightarrow> exn + bool) \<Rightarrow> int \<Rightarrow> string \<Rightarrow> string \<Rightarrow> world
     \<Rightarrow> bool \<times> world \<times> event list" where
  "check_participant_login check_password_hash now email password w =
     (case get_sheet ''Participants_list'' w of
        (Inl e, w1, evs1) \<Rightarrow> (False, w1, evs1 @ [Show Error])
      | (Inr sheet, w1, evs1) \<Rightarrow>
          (case get_cached_sheet_data now ''Participants_list'' (ws_get_all_records w1 sheet)
                  (session w1) of
             (Inl e, s2, evs2) \<Rightarrow> (False, w1\<lparr>session := s2\<rparr>, evs1 @ evs2 @ [Show Error])
           | (Inr participants_data, s2, evs2) \<Rightarrow>
               (let w2 = w1\<lparr>session := s2\<rparr>; evs = evs1 @ evs2
                in
                  if participants_data = [] then (False, w2, evs @ [Show Error])
                  else if \<not> df_has_column participants_data ''Email''
                  then (False, w2, evs @ [Show Error])
                  else
                    (case filter (\<lambda>row. py_eq (df_cell row ''Email'') (PStr email))
                            participants_data of
                       [] \<Rightarrow> (False, w2, evs @ [Show Error])
                     | user_record # others \<Rightarrow>
                         if \<not> df_has_column participants_data ''PasswordHash''
                         then (False, w2, evs @ [Show Error])
                         else
                           (let user_password_hash = df_cell user_record ''PasswordHash''
                            in
                              if \<not> truthy user_password_hash then (False, w2, evs @ [Show Error])
                              else
                                (case check_password_hash user_password_hash password of
                                   Inl e \<Rightarrow> (False, w2, evs @ [Show Error])
                                 | Inr b \<Rightarrow> (b, w2, evs)))))))"

text \<open>\<^verbatim>\<open>change_participant_password(email, current_password, new_password)\<close>, lines
  1300-1337.\<close>

definition change_participant_password ::
  "(pyval \<Rightarrow> string \<Rightarrow> exn + bool) \<Rightarrow> (string \<Rightarrow> string) \<Rightarrow> int \<Rightarrow> string \<Rightarrow> string \<Rightarrow> string
     \<Rightarrow> world \<Rightarrow> bool \<times> world \<times> event list" where
  "change_participant_password check_password_hash generate_password_hash now email
       current_password new_password w =
     (case check_participant_login check_password_hash now email current_password w of
        (False, w0, evs0) \<Rightarrow> (False, w0, evs0 @ [Show Error])
      | (True, w0, evs0) \<Rightarrow>
          (case read_participants w0 of
             (Inl e, w1, evs1) \<Rightarrow> (False, w1, evs0 @ evs1 @ [Show Error])
           | (Inr None, w1, evs1) \<Rightarrow> (False, w1, evs0 @ evs1)
           | (Inr (Some (sheet, data, hdrs)), w1, evs1) \<Rightarrow>
               (case try_write_password_hash sheet data hdrs email
                       (generate_password_hash new_password) w1 of
                  (Inl e, w2, evs2) \<Rightarrow> (False, w2, evs0 @ evs1 @ evs2 @ [Show Error])
                | (Inr b, w2, evs2) \<Rightarrow> (b, w2, evs0 @ evs1 @ evs2))))"


section \<open>Notifier\<close>

text \<open>\<^verbatim>\<open>s.split()\<close>: the maximal runs of non-whitespace; \<open>cur\<close> is the run being read, reversed.\<close>

fun split_ws :: "string \<Rightarrow> string \<Rightarrow> string list" where
  "split_ws cur [] = (if cur = [] then [] else [rev cur])"
| "split_ws cur (c # cs) =
     (if py_isspace c
      then (if cur = [] then split_ws [] cs else rev cur # split_ws [] cs)
      else split_ws (c # cur) cs)"

text \<open>\<^verbatim>\<open>sep.join(parts)\<close>.\<close>

fun py_join :: "string \<Rightarrow> string list \<Rightarrow> string" where
  "py_join sep [] = []"
| "py_join sep [x] = x"
| "py_join sep (x # y # ys) = x @ sep @ py_join sep (y # ys)"

text \<open>The inner function \<^verbatim>\<open>clean_string\<close> of \<^verbatim>\<open>notify_participant\<close> (lines 234-241).\<close>

definition clean_string :: "pyval \<Rightarrow> string" where
  "clean_string s =
     (if \<not> truthy s then []
      else
        (let s1 = py_strip (py_str s);
             s2 = map (\<lambda>c. if c = char_of (160 :: nat) then CHR '' '' else c) s1
         in py_join '' '' (split_ws [] s2)))"

text \<open>
  \<^verbatim>\<open>send_email_notification(to_email, subject, message_text)\<close>, lines 192-228. \<open>mailer\<close> is
  the mail provider: given sender, app password, recipient, subject and contents it delivers
  (\<open>None\<close>) or raises. A function is modelled with the result type \<open>exn + bool\<close> so that
  what it lets escape is visible.
\<close>

type_synonym mailer = "pyval \<Rightarrow> pyval \<Rightarrow> pyval \<Rightarrow> string \<Rightarrow> string \<Rightarrow> exn option"

definition send_email_body ::
  "mailer \<Rightarrow> pyval \<Rightarrow> string \<Rightarrow> string \<Rightarrow> world \<Rightarrow> (exn + bool) \<times> event list" where
  "send_email_body mail to_email subject message_text w =
     (case secrets w of
        None \<Rightarrow> (Inl SecretsUnavailable, [])
      | Some sec \<Rightarrow>
          (case sec ''gmail'' of
             None \<Rightarrow> (Inr False, [Show Error])
           | Some gmail_config \<Rightarrow>
               (let sender_email = (case gmail_config ''sender_email'' of Some v \<Rightarrow> v | None \<Rightarrow> PNone);
                    app_password = (case gmail_config ''app_password'' of Some v \<Rightarrow> v | None \<Rightarrow> PNone)
                in
                  if \<not> truthy sender_email \<or> \<not> truthy app_password then (Inr False, [Show Error])
                  else
                    (case mail sender_email app_password to_email subject message_text of
                       None \<Rightarrow> (Inr True, [MailAttempt to_email subject message_text, Show Success])
                     | Some e \<Rightarrow>
                         (Inr False, [MailAttempt to_email subject message_text, Show Error])))))"

definition send_email_notification ::
  "mailer \<Rightarrow> pyval \<Rightarrow> string \<Rightarrow> string \<Rightarrow> world \<Rightarrow> (exn + bool) \<times> event list" where
  "send_email_notification mail to_email subject message_text w =
     (case send_email_body mail to_email subject message_text w of
        (Inl e, evs) \<Rightarrow> (Inr False, evs @ [Show Error])
      | (Inr b, evs) \<Rightarrow> (Inr b, evs))"

text \<open>The three templates (lines 248-295): subject and message for a notification type, or
  the early \<^verbatim>\<open>return False\<close> after a warning.\<close>

definition render_notification ::
  "pyval \<Rightarrow> string \<Rightarrow> string \<Rightarrow> pyval \<Rightarrow> pyval \<Rightarrow> (string \<times> string) option" where
  "render_notification email participant_name team_name notification_type project_name =
     (if py_eq notification_type (PStr ''team_assignment'')
      then Some (''Welcome to GenAI Cohort - Team Assignment'',
        ''Dear '' @ participant_name @ '',\<newline>\<newline>''
        @ ''Welcome to the GenAI Cohort! We're excited to have you on board.\<newline>\<newline>''
        @ ''You have been assigned to team: '' @ team_name @ ''\<newline>\<newline>''
        @ ''To get started:\<newline>1. Visit our portal\<newline>2. Click '' @ [CHR 0x22] @ ''Sign Up''
        @ [CHR 0x22] @ ''\<newline>''
        @ ''3. Use your email: '' @ py_str email @ ''\<newline>4. Create your password\<newline>''
        @ ''5. Log in to view your team and project details\<newline>\<newline>''
        @ ''Best regards,\<newline>The GenAI Cohort Admin Team'')
      else if py_eq notification_type (PStr ''project_assignment'')
      then
        (if \<not> truthy project_name then None
         else Some (''New Project Assignment - '' @ py_str project_name,
           ''Dear '' @ participant_name @ '',\<newline>\<newline>''
           @ ''A new project has been assigned to your team ('' @ team_name @ '').\<newline>\<newline>''
           @ ''Project: '' @ py_str project_name @ ''\<newline>\<newline>''
           @ ''Please log in to the portal to:\<newline>- View project details\<newline>''
           @ ''- Collaborate with your team\<newline>- Submit progress updates\<newline>\<newline>''
           @ ''Best regards,\<newline>The GenAI Cohort Admin Team''))
      else if py_eq notification_type (PStr ''password_reset'')
      then Some (''Password Reset Successful'',
        ''Dear '' @ participant_name @ '',\<newline>\<newline>''
        @ ''Your password has been reset successfully.\<newline>\<newline>''
        @ ''Please log in to the portal using your new password.\<newline>\<newline>''
        @ ''Best regards,\<newline>The GenAI Cohort Admin Team'')
      else None)"

text \<open>The \<^verbatim>\<open>try\<close> block of \<^verbatim>\<open>notify_participant\<close>, lines 233-309.\<close>

definition notify_body ::
  "mailer \<Rightarrow> pyval \<Rightarrow> pyval \<Rightarrow> pyval \<Rightarrow> pyval \<Rightarrow> pyval \<Rightarrow> world
     \<Rightarrow> (exn + bool) \<times> event list" where
  "notify_body mail email participant_name team_name notification_type project_name w =
     (let participant_name' = clean_string participant_name;
          team_name' = clean_string team_name;
          project_name' = (if truthy project_name then PStr (clean_string project_name) else PNone)
      in
        (case render_notification email participant_name' team_name' notification_type
                project_name' of
           None \<Rightarrow> (Inr False, [Show Warning])
         | Some (subject, message) \<Rightarrow>
             (case send_email_notification mail email subject message w of
                (Inl e, evs) \<Rightarrow> (Inl e, evs)
              | (Inr success, evs) \<Rightarrow>
                  (Inr success, evs @ [Show (if success then Success else Error)]))))"

text \<open>\<^verbatim>\<open>notify_participant(email, participant_name, team_name, notification_type,
  project_name)\<close>, lines 230-313: the block above under \<^verbatim>\<open>except Exception\<close>.\<close>

definition notify_participant ::
  "mailer \<Rightarrow> pyval \<Rightarrow> pyval \<Rightarrow> pyval \<Rightarrow> pyval \<Rightarrow> pyval \<Rightarrow> world
     \<Rightarrow> (exn + bool) \<times> event list" where
  "notify_participant mail email participant_name team_name notification_type project_name w =
     (case notify_body mail email participant_name team_name notification_type project_name w of
        (Inl e, evs) \<Rightarrow> (Inr False, evs @ [Show Error])
      | (Inr b, evs) \<Rightarrow> (Inr b, evs))"



section \<open>Login\<close>

text \<open>\<^verbatim>\<open>check_admin_login(email, password)\<close>, lines 65-81. An unreadable secrets store raises
  inside the \<^verbatim>\<open>try\<close>; the handler reports it and returns \<^verbatim>\<open>False\<close>.\<close>

definition check_admin_login :: "string \<Rightarrow> string \<Rightarrow> world \<Rightarrow> bool \<times> event list" where
  "check_admin_login email password w =
     (case secrets w of
        None \<Rightarrow> (False, [Show Error])
      | Some sec \<Rightarrow>
          (case sec ''admin'' of
             None \<Rightarrow> (False, [Show Error])
           | Some admin_config \<Rightarrow>
               (case admin_config ''email'' of
                  None \<Rightarrow> (False, [Show Error])
                | Some admin_email \<Rightarrow>
                    (case admin_config ''password'' of
                       None \<Rightarrow> (False, [Show Error])
                     | Some admin_password \<Rightarrow>
                         (py_eq (PStr email) admin_email \<and> py_eq (PStr password) admin_password,
                          [])))))"

definition log_in :: "string \<Rightarrow> string \<Rightarrow> world \<Rightarrow> world" where
  "log_in role email w =
     w\<lparr>session := (session w)\<lparr>logged_in := True, user_role := Some role, user_email := Some email\<rparr>\<rparr>"

text \<open>The body of \<^verbatim>\<open>if st.button("Login")\<close> in \<^verbatim>\<open>show_login_page\<close>, lines 1347-1371.\<close>

definition show_login_page ::
  "(pyval \<Rightarrow> string \<Rightarrow> exn + bool) \<Rightarrow> int \<Rightarrow> string \<Rightarrow> string \<Rightarrow> world \<Rightarrow> world \<times> event list" where
  "show_login_page check_password_hash now login_email login_password w =
     (if login_email = [] \<or> login_password = [] then (w, [Show Error])
      else
        (case check_admin_login login_email login_password w of
           (True, evs0) \<Rightarrow> (log_in ''admin'' login_email w, evs0 @ [Rerun])
         | (False, evs0) \<Rightarrow>
             (case check_participant_login check_password_hash now login_email login_password w of
                (True, w1, evs1) \<Rightarrow> (log_in ''participant'' login_email w1, evs0 @ evs1 @ [Rerun])
              | (False, w1, evs1) \<Rightarrow> (w1, evs0 @ evs1 @ [Show Error]))))"

section \<open>Forms that write\<close>

text \<open>The sidebar form \<^verbatim>\<open>change_password\<close> of \<^verbatim>\<open>show_participant_view\<close>, lines 1114-1126.\<close>

definition change_password_form ::
  "(pyval \<Rightarrow> string \<Rightarrow> exn + bool) \<Rightarrow> (string \<Rightarrow> string) \<Rightarrow> int \<Rightarrow> string \<Rightarrow> string \<Rightarrow> string
     \<Rightarrow> string \<Rightarrow> world \<Rightarrow> world \<times> event list" where
  "change_password_form check_password_hash generate_password_hash now user_email'
       current_password new_password confirm_password w =
     (if current_password = [] \<or> new_password = [] \<or> confirm_password = [] then (w, [Show Error])
      else if new_password \<noteq> confirm_password then (w, [Show Error])
      else if length new_password < 6 then (w, [Show Error])
      else
        (case change_participant_password check_password_hash generate_password_hash now
                user_email' current_password new_password w of
           (True, w1, evs) \<Rightarrow> (w1, evs @ [Show Success, Show Info])
         | (False, w1, evs) \<Rightarrow> (w1, evs @ [Show Error])))"

text \<open>\<^verbatim>\<open>frame[frame["Email"] == selected_email][column].iloc[0]\<close>.\<close>

definition df_lookup :: "snapshot \<Rightarrow> string \<Rightarrow> string \<Rightarrow> exn + pyval" where
  "df_lookup df selected_email column =
     (if \<not> df_has_column df ''Email'' then Inl (KeyError ''Email'')
      else
        (case filter (\<lambda>row. py_eq (df_cell row ''Email'') (PStr selected_email)) df of
           [] \<Rightarrow> (if df_has_column df column then Inl IndexError else Inl (KeyError column))
         | row # others \<Rightarrow>
             (if df_has_column df column then Inr (df_cell row column) else Inl (KeyError column))))"

text \<open>The form \<^verbatim>\<open>reset_password\<close> of the admin's password tab, lines 625-659;
  \<open>participants_df\<close> is the frame the tab shows.\<close>

definition reset_password_form ::
  "(string \<Rightarrow> string) \<Rightarrow> mailer \<Rightarrow> snapshot \<Rightarrow> string \<Rightarrow> string \<Rightarrow> string \<Rightarrow> bool \<Rightarrow> world
     \<Rightarrow> world \<times> event list" where
  "reset_password_form generate_password_hash mail participants_df selected_email new_password
       confirm_password send_notification w =
     (if new_password = [] \<or> confirm_password = [] then (w, [Show Error])
      else if new_password \<noteq> confirm_password then (w, [Show Error])
      else if length new_password < 6 then (w, [Show Error])
      else
        (case reset_participant_password generate_password_hash selected_email new_password w of
           (False, w1, evs) \<Rightarrow> (w1, evs @ [Show Error])
         | (True, w1, evs) \<Rightarrow>
             (let evs_mail =
                (if send_notification
                 then
                   (case df_lookup participants_df selected_email ''Name'' of
                      Inl e \<Rightarrow> [Show Warning]
                    | Inr participant_name \<Rightarrow>
                        (case df_lookup participants_df selected_email ''Team'' of
                           Inl e \<Rightarrow> [Show Warning]
                         | Inr team_name \<Rightarrow>
                             (case notify_participant mail (PStr selected_email) participant_name
                                     team_name (PStr ''password_reset'') PNone w1 of
                                (Inl e, evs2) \<Rightarrow> evs2 @ [Show Warning]
                              | (Inr b, evs2) \<Rightarrow> evs2)))
                 else [])
              in (w1\<lparr>session := clear_cache (session w1)\<rparr>,
                  evs @ [Show Success] @ evs_mail @ [Rerun]))))"

text \<open>Deleting a team, lines 435-441 of \<^verbatim>\<open>show_admin_view\<close>: the row of the team in the
  \<^verbatim>\<open>Teams\<close> sheet is computed from the frame built on the snapshot \<open>teams_data\<close>. Any exception
  ends in the handler of line 442.\<close>

definition delete_team_row :: "snapshot \<Rightarrow> pyval \<Rightarrow> world \<Rightarrow> world \<times> event list" where
  "delete_team_row teams_data team_to_delete w =
     (if \<not> df_has_column teams_data ''TeamName'' then (w, [Show Error])
      else
        (case first_index (\<lambda>row. py_eq (df_cell row ''TeamName'') team_to_delete) teams_data of
           None \<Rightarrow> (w, [Show Error])
         | Some idx \<Rightarrow>
             (let team_row = idx + 2
              in
                (case remote w ''Teams'' of
                   None \<Rightarrow> (w, [Remote ''Teams'' (DeleteRows team_row), Show Error])
                 | Some ws \<Rightarrow>
                     (case delete_rows ws team_row of
                        Inl e \<Rightarrow> (w, [Remote ''Teams'' (DeleteRows team_row), Show Error])
                      | Inr ws' \<Rightarrow>
                          (w\<lparr>remote := (remote w)(''Teams'' \<mapsto> ws'),
                             session := clear_cache (session w)\<rparr>,
                           [Remote ''Teams'' (DeleteRows team_row), Show Success, Rerun]))))))"

text \<open>The like button, lines 887-907 of \<^verbatim>\<open>show_updates_dashboard\<close>, on the snapshot
  \<open>likes_data\<close> of the \<^verbatim>\<open>Likes\<close> sheet. An empty snapshot gives a frame with the two named
  columns. Any exception ends in the handler of line 941.\<close>

definition like_button :: "snapshot \<Rightarrow> pyval \<Rightarrow> string \<Rightarrow> world \<Rightarrow> world \<times> event list" where
  "like_button likes_data update_id user_email' w =
     (if likes_data \<noteq> [] \<and>
         (\<not> df_has_column likes_data ''UpdateID'' \<or> \<not> df_has_column likes_data ''Email'')
      then (w, [Show Error])
      else
        (let update_likes = filter (\<lambda>row. py_eq (df_cell row ''UpdateID'') update_id) likes_data;
             already_liked =
               list_ex (\<lambda>row. py_eq (df_cell row ''Email'') (PStr user_email')) update_likes
         in
           (case remote w ''Likes'' of
              None \<Rightarrow> (w, [Show Error])
            | Some ws \<Rightarrow>
                if already_liked
                then
                  (case first_index
                          (\<lambda>row. py_eq (df_cell row ''UpdateID'') update_id
                                 \<and> py_eq (df_cell row ''Email'') (PStr user_email')) likes_data of
                     None \<Rightarrow> (w, [Show Error])
                   | Some like_idx \<Rightarrow>
                       (let like_row = like_idx + 2
                        in
                          (case delete_rows ws like_row of
                             Inl e \<Rightarrow> (w, [Remote ''Likes'' (DeleteRows like_row), Show Error])
                           | Inr ws' \<Rightarrow>
                               (w\<lparr>remote := (remote w)(''Likes'' \<mapsto> ws'),
                                  session := clear_cache (session w)\<rparr>,
                                [Remote ''Likes'' (DeleteRows like_row), Rerun]))))
                else
                  (w\<lparr>remote := (remote w)
                       (''Likes'' \<mapsto> append_row ws [update_id, PStr user_email']),
                     session := clear_cache (session w)\<rparr>,
                   [Remote ''Likes'' (AppendRow [update_id, PStr user_email']), Rerun]))))"

section \<open>Signup form\<close>

text \<open>The widgets of \<^verbatim>\<open>signup.py\<close>, lines 39-56.\<close>

record signup_form =
  name_field :: string
  email_field :: string
  pref_name :: string
  exp_level :: string
  genai_exp :: bool
  background :: "string list"
  why_join :: string
  goals :: string
  role_pref1 :: string
  role_pref2 :: string
  skills :: string
  available :: bool
  best_time :: string
  has_pc :: bool
  tools :: "string list"
  other_tools :: string
  additional_info :: string
  mentor_future :: bool

definition new_data :: "signup_form \<Rightarrow> pyval list" where
  "new_data f =
     [PStr (name_field f), PStr (email_field f), PStr (pref_name f), PStr (exp_level f), PBool (genai_exp f),
      PStr (py_join '', '' (background f)), PStr (why_join f), PStr (goals f),
      PStr (role_pref1 f), PStr (role_pref2 f), PStr (skills f), PBool (available f),
      PStr (best_time f), PBool (has_pc f), PStr (py_join '', '' (tools f)),
      PStr (other_tools f), PStr (additional_info f), PBool (mentor_future f),
      PStr ''Pending'']"

text \<open>
  The body of \<^verbatim>\<open>if st.button("Submit")\<close>, lines 59-87. \<open>sheet1\<close> is what
  \<^verbatim>\<open>get_google_sheet()\<close> gives: the first worksheet of the spreadsheet, or the exception it
  reports and raises again. \<open>append_fault\<close> is the exception \<^verbatim>\<open>append_row\<close> raises, if any.
  The result is the worksheet afterwards, when it was reached.
\<close>

definition submit ::
  "signup_form \<Rightarrow> exn + worksheet \<Rightarrow> exn option \<Rightarrow> worksheet option \<times> event list" where
  "submit f sheet1 append_fault =
     (case sheet1 of
        Inl e \<Rightarrow> (None, [Show Error, Show Error, Show Error])
      | Inr ws \<Rightarrow>
          (case append_fault of
             Some e \<Rightarrow> (Some ws, [Remote ''sheet1'' (AppendRow (new_data f)), Show Error])
           | None \<Rightarrow>
               (Some (append_row ws (new_data f)),
                [Remote ''sheet1'' (AppendRow (new_data f)), Show Success])))"

fun is_write :: "event \<Rightarrow> bool" where
  "is_write (Remote n (AppendRow vals)) = True"
| "is_write (Remote n (DeleteRows k)) = True"
| "is_write (Remote n (UpdateRange r vals)) = True"
| "is_write (Remote n (UpdateCell r c v)) = True"
| "is_write (Remote n Clear) = True"
| "is_write _ = False"

section \<open>Example states\<close>

text \<open>A small spreadsheet, a session that fetched \<^verbatim>\<open>Teams\<close> at time 0, a configuration,
  and stand-ins for the password library and the mail provider, for the concrete instances
  below.\<close>

definition demo_teams_sheet :: worksheet where
  "demo_teams_sheet =
     [ [PStr ''TeamName'', PStr ''Description''],
      [PStr ''Team1'', PStr ''First''],
      [PStr ''Team2'', PStr ''Second''] ]"

definition demo_teams :: snapshot where
  "demo_teams =
     [ [(''TeamName'', PStr ''Team1''), (''Description'', PStr ''First'')],
      [(''TeamName'', PStr ''Team2''), (''Description'', PStr ''Second'')] ]"

definition demo_session :: session where
  "demo_session =
     initial_session\<lparr>sheet_data_cache := [''Teams'' \<mapsto> demo_teams],
                     last_sheet_refresh := [''Teams'' \<mapsto> 0]\<rparr>"

definition demo_secrets :: "string \<rightharpoonup> (string \<rightharpoonup> pyval)" where
  "demo_secrets =
     [''admin'' \<mapsto> [''email'' \<mapsto> PStr ''admin@x.com'', ''password'' \<mapsto> PStr ''s3cret''],
      ''gmail'' \<mapsto> [''sender_email'' \<mapsto> PStr ''portal@x.com'', ''app_password'' \<mapsto> PStr ''app''] ]"

definition demo_participants_sheet :: worksheet where
  "demo_participants_sheet =
     [ [PStr ''Name'', PStr ''Email'', PStr ''Team'', PStr ''PasswordHash''],
      [PStr ''Ada'', PStr ''ada@x.com'', PStr ''Team1'', PStr ''h:oldpass''],
      [PStr ''Bob'', PStr ''bob@x.com'', PStr ''Team1'', PStr [] ] ]"

definition demo_likes_sheet :: worksheet where
  "demo_likes_sheet =
     [ [PStr ''UpdateID'', PStr ''Email''],
      [PStr ''upd_1'', PStr ''bob@x.com''],
      [PStr ''upd_1'', PStr ''ada@x.com''],
      [PStr ''upd_2'', PStr ''ada@x.com''] ]"


definition demo_world :: world where
  "demo_world =
     \<lparr>secrets = Some demo_secrets, session = initial_session,
      remote = [''Participants_list'' \<mapsto> demo_participants_sheet, ''Teams'' \<mapsto> demo_teams_sheet,
                ''Likes'' \<mapsto> demo_likes_sheet],
      read_fault = Map.empty, header_fault = Map.empty, write_fault = Map.empty\<rparr>"

definition demo_generate :: "string \<Rightarrow> string" where
  "demo_generate password = ''h:'' @ password"

definition demo_check :: "pyval \<Rightarrow> string \<Rightarrow> exn + bool" where
  "demo_check pwhash password =
     (case pwhash of
        PStr h \<Rightarrow> Inr (h = ''h:'' @ password)
      | _ \<Rightarrow> Inl (OtherException ''AttributeError''))"

definition demo_mail_down :: mailer where
  "demo_mail_down sender_email app_password to_email subject contents =
     Some (OtherException ''SMTPException'')"


definition empty_form :: signup_form where
  "empty_form =
     \<lparr>name_field = [], email_field = [], pref_name = [], exp_level = ''No experience'',
      genai_exp = False, background = [], why_join = [], goals = [],
      role_pref1 = ''Project Lead'', role_pref2 = ''Project Lead'', skills = [],
      available = False, best_time = ''Morning'', has_pc = False, tools = [],
      other_tools = [], additional_info = [], mentor_future = False\<rparr>"

definition ada_form :: signup_form where
  "ada_form = empty_form\<lparr>name_field := ''Ada'', email_field := ''ada@x.com''\<rparr>"

text \<open>The world after the handle of \<^verbatim>\<open>Participants_list\<close> has been kept in the session.\<close>

definition participants_handle :: "world \<Rightarrow> world" where
  "participants_handle w =
     w\<lparr>session := (session w)
        \<lparr>worksheet_handles := insert ''Participants_list'' (worksheet_handles (session w))\<rparr>\<rparr>"




definition demo_after_change :: "world \<times> event list" where
  "demo_after_change =
     change_password_form demo_check demo_generate 0 ''ada@x.com'' ''oldpass'' ''newpass''
       ''newpass'' demo_world"


section \<open>Properties\<close>


subsection \<open>Read cache\<close>

lemma cache_dicts_in_step:
  assumes "dom (sheet_data_cache st) = dom (last_sheet_refresh st)"
  shows "dom (sheet_data_cache (fst (snd (get_cached_sheet_data now sheet_name fetch st))))
       = dom (last_sheet_refresh (fst (snd (get_cached_sheet_data now sheet_name fetch st))))"
  using assms
  by (auto simp: get_cached_sheet_data_def stale_fallback_def
           split: option.splits sum.splits exn.splits)

lemma cache_dicts_in_step_clear:
  "dom (sheet_data_cache (clear_cache st)) = dom (last_sheet_refresh (clear_cache st))"
  by (simp add: clear_cache_def)

text \<open>
  Claim C1. For every sheet name: if the session holds a snapshot of the sheet together with a
  fetch time less than five minutes before the current time (\<open>cache_valid\<close>, the test of the
  code, strict at exactly five minutes), \<^verbatim>\<open>get_cached_sheet_data\<close> returns that snapshot, leaves
  the session as it is and makes no remote call, whatever the remote would answer. Otherwise
  it makes exactly one remote call, the read of all rows of that sheet, and when the read
  succeeds it returns the rows read and stores them with the current time under the sheet
  name.
\<close>

theorem read_cache_hit_or_single_fetch:
  "(cache_valid now sheet_name st \<longrightarrow>
      get_cached_sheet_data now sheet_name fetch st =
        (Inr (the (sheet_data_cache st sheet_name)), st, []))
   \<and> (\<not> cache_valid now sheet_name st \<longrightarrow>
        length (filter is_remote (snd (snd (get_cached_sheet_data now sheet_name fetch st)))) = 1
        \<and> length (filter (is_fetch sheet_name)
                   (snd (snd (get_cached_sheet_data now sheet_name fetch st)))) = 1
        \<and> (\<forall>data. fetch = Inr data \<longrightarrow>
              get_cached_sheet_data now sheet_name fetch st =
                (Inr data,
                 st\<lparr>sheet_data_cache := (sheet_data_cache st)(sheet_name \<mapsto> data),
                    last_sheet_refresh := (last_sheet_refresh st)(sheet_name \<mapsto> now)\<rparr>,
                 [Remote sheet_name GetAllRecords])))"
  by (auto simp: get_cached_sheet_data_def stale_fallback_def cache_valid_def
           split: option.splits sum.splits exn.splits)

theorem read_cache_hit_or_single_fetch_witness:
  "cache_valid 299999999 ''Teams'' demo_session
   \<and> get_cached_sheet_data 299999999 ''Teams'' (Inl (APIError ''500'')) demo_session
       = (Inr demo_teams, demo_session, [])
   \<and> \<not> cache_valid 300000000 ''Teams'' demo_session
   \<and> fst (get_cached_sheet_data 300000000 ''Teams'' (Inr []) demo_session) = Inr []
   \<and> snd (snd (get_cached_sheet_data 300000000 ''Teams'' (Inr []) demo_session))
       = [Remote ''Teams'' GetAllRecords]
   \<and> last_sheet_refresh
        (fst (snd (get_cached_sheet_data 300000000 ''Teams'' (Inr []) demo_session))) ''Teams''
       = Some 300000000"
  using read_cache_hit_or_single_fetch [of 299999999 "''Teams''" demo_session "Inl (APIError ''500'')"]
        read_cache_hit_or_single_fetch [of 300000000 "''Teams''" demo_session "Inr []"]
  by (simp add: cache_valid_def demo_session_def initial_session_def CACHE_DURATION_def
        timedelta_minutes_def)

text \<open>
  Claim C2, as the claim states it, fails: an API error that is not a rate-limit signal is
  raised again by the first handler (line 116) and never reaches the second one, so it
  propagates although a stale snapshot exists.
\<close>

theorem read_cache_api_error_counterexample:
  "sheet_data_cache demo_session ''Teams'' = Some demo_teams
   \<and> last_sheet_refresh demo_session ''Teams'' = Some 0
   \<and> \<not> py_in ''429'' ''500 Internal Server Error''
   \<and> get_cached_sheet_data 400000000 ''Teams'' (Inl (APIError ''500 Internal Server Error''))
         demo_session
       = (Inl (APIError ''500 Internal Server Error''), demo_session,
          [Remote ''Teams'' GetAllRecords])"
  by (simp add: get_cached_sheet_data_def cache_valid_def demo_session_def initial_session_def
        CACHE_DURATION_def timedelta_minutes_def)

text \<open>
  Claim C2, amended. When no valid snapshot exists and the remote read fails: on an API error
  whose text contains \<^verbatim>\<open>429\<close>, the stale snapshot is returned (after a warning) if the session
  holds one with its fetch time, and the error propagates if the session holds no snapshot;
  any other API error propagates, whether or not a snapshot exists; on a failure that is
  not an API error, the stale snapshot is returned if the session holds one with its fetch
  time, and the failure propagates if it holds none.
\<close>

theorem read_cache_failure_paths:
  assumes "\<not> cache_valid now sheet_name st"
  shows "(py_in ''429'' msg \<longrightarrow>
           (\<forall>snap t. sheet_data_cache st sheet_name = Some snap
                     \<and> last_sheet_refresh st sheet_name = Some t \<longrightarrow>
              get_cached_sheet_data now sheet_name (Inl (APIError msg)) st
                = (Inr snap, st, [Remote sheet_name GetAllRecords, Show Warning]))
         \<and> (sheet_data_cache st sheet_name = None \<longrightarrow>
              fst (get_cached_sheet_data now sheet_name (Inl (APIError msg)) st)
                = Inl (APIError msg)))
       \<and> (\<not> py_in ''429'' msg \<longrightarrow>
            fst (get_cached_sheet_data now sheet_name (Inl (APIError msg)) st)
              = Inl (APIError msg))
       \<and> ((\<forall>m. e \<noteq> APIError m) \<longrightarrow>
           (\<forall>snap t. sheet_data_cache st sheet_name = Some snap
                     \<and> last_sheet_refresh st sheet_name = Some t \<longrightarrow>
              get_cached_sheet_data now sheet_name (Inl e) st
                = (Inr snap, st, [Remote sheet_name GetAllRecords, Show Warning]))
         \<and> (sheet_data_cache st sheet_name = None \<longrightarrow>
              fst (get_cached_sheet_data now sheet_name (Inl e) st) = Inl e))"
  using assms
  by (cases e) (auto simp: get_cached_sheet_data_def stale_fallback_def split: option.splits)

theorem read_cache_failure_paths_witness:
  "\<not> cache_valid 400000000 ''Teams'' demo_session
   \<and> py_in ''429'' ''429 Quota exceeded''
   \<and> fst (get_cached_sheet_data 400000000 ''Teams'' (Inl (APIError ''429 Quota exceeded''))
            demo_session) = Inr demo_teams
   \<and> fst (get_cached_sheet_data 400000000 ''Teams'' (Inl (OtherException ''timeout''))
            demo_session) = Inr demo_teams
   \<and> fst (get_cached_sheet_data 400000000 ''Teams'' (Inl (APIError ''429 Quota exceeded''))
            initial_session) = Inl (APIError ''429 Quota exceeded'')
   \<and> fst (get_cached_sheet_data 400000000 ''Teams'' (Inl (OtherException ''timeout''))
            initial_session) = Inl (OtherException ''timeout'')"
  using read_cache_failure_paths [of 400000000 "''Teams''" demo_session "''429 Quota exceeded''"
          "OtherException ''timeout''"]
        read_cache_failure_paths [of 400000000 "''Teams''" initial_session "''429 Quota exceeded''"
          "OtherException ''timeout''"]
  by (simp add: cache_valid_def demo_session_def initial_session_def CACHE_DURATION_def
        timedelta_minutes_def)


subsection \<open>Worksheet resolver\<close>

lemma expected_headers_no_trailing_blank:
  "rstrip_blank (expected_headers sheet_name) = expected_headers sheet_name"
  by (simp add: expected_headers_def headers_def rstrip_blank_def)

lemma row_values_header_row:
  "row_values [map PStr (expected_headers sheet_name)] 1 = expected_headers sheet_name"
  by (simp add: row_values_def comp_def expected_headers_no_trailing_blank)

lemma get_sheet_headers_match:
  assumes "remote w sheet_name = Some ws" and "sheet_name \<noteq> ''Participants_list''"
    and "row_values ws 1 = expected_headers sheet_name"
  shows "remote (fst (snd (get_sheet sheet_name w))) = remote w"
  using assms by (auto simp: get_sheet_def Let_def)

text \<open>
  Claim C5. For every worksheet that exists in the spreadsheet: when its name is not
  \<^verbatim>\<open>Participants_list\<close> and the values of its first row differ from the header list
  prescribed for the name (the empty list for a name without one), \<^verbatim>\<open>get_sheet\<close> clears the
  worksheet and writes the prescribed headers, so that afterwards the worksheet consists of
  that header row alone and holds no record; the \<^verbatim>\<open>Participants_list\<close> worksheet is returned
  with the spreadsheet as it was, and no call other than the lookup of the worksheet is made
  (no reading of the header row, no clearing).
\<close>

theorem get_sheet_header_handling:
  assumes "remote w sheet_name = Some ws"
  shows "(sheet_name \<noteq> ''Participants_list'' \<and> row_values ws 1 \<noteq> expected_headers sheet_name \<longrightarrow>
            fst (get_sheet sheet_name w) = Inr sheet_name
          \<and> remote (fst (snd (get_sheet sheet_name w)))
              = (remote w)(sheet_name \<mapsto> [map PStr (expected_headers sheet_name)])
          \<and> row_values [map PStr (expected_headers sheet_name)] 1 = expected_headers sheet_name
          \<and> get_all_records [map PStr (expected_headers sheet_name)] = []
          \<and> Remote sheet_name Clear \<in> set (snd (snd (get_sheet sheet_name w))))
       \<and> (sheet_name = ''Participants_list'' \<longrightarrow>
            fst (get_sheet sheet_name w) = Inr sheet_name
          \<and> remote (fst (snd (get_sheet sheet_name w))) = remote w
          \<and> set (snd (snd (get_sheet sheet_name w))) \<subseteq> {Remote sheet_name OpenWorksheet})"
  using assms row_values_header_row [of sheet_name]
  by (auto simp: get_sheet_def Let_def append_row_def sheet_clear_def get_all_records_def)

theorem get_sheet_header_handling_witness:
  "remote (demo_world\<lparr>remote := [''Teams'' \<mapsto> [ [PStr ''Team''], [PStr ''Team1''] ] ]\<rparr>) ''Teams''
     = Some [ [PStr ''Team''], [PStr ''Team1''] ]
   \<and> row_values [ [PStr ''Team''], [PStr ''Team1''] ] 1 \<noteq> expected_headers ''Teams''
   \<and> remote (fst (snd (get_sheet ''Teams''
        (demo_world\<lparr>remote := [''Teams'' \<mapsto> [ [PStr ''Team''], [PStr ''Team1''] ] ]\<rparr>)))) ''Teams''
     = Some [ [PStr ''TeamName'', PStr ''Description''] ]
   \<and> remote demo_world ''Participants_list'' = Some demo_participants_sheet
   \<and> remote (fst (snd (get_sheet ''Participants_list'' demo_world))) = remote demo_world"
  using get_sheet_header_handling
          [of "demo_world\<lparr>remote := [''Teams'' \<mapsto> [ [PStr ''Team''], [PStr ''Team1''] ] ]\<rparr>"
              "''Teams''" "[ [PStr ''Team''], [PStr ''Team1''] ]"]
        get_sheet_header_handling [of demo_world "''Participants_list''" demo_participants_sheet]
  by (simp add: demo_world_def row_values_def rstrip_blank_def expected_headers_def headers_def)

subsection \<open>Admin login\<close>

lemma py_eq_PStr: "py_eq (PStr s) v = (v = PStr s)"
  by (cases v) auto

lemma check_admin_login_iff:
  "fst (check_admin_login e p w) =
     (\<exists>sec cfg. secrets w = Some sec \<and> sec ''admin'' = Some cfg
        \<and> cfg ''email'' = Some (PStr e) \<and> cfg ''password'' = Some (PStr p))"
  by (auto simp: check_admin_login_def py_eq_PStr split: option.splits)

lemma check_admin_login_events:
  "fst (check_admin_login e p w) \<Longrightarrow> snd (check_admin_login e p w) = []"
  by (auto simp: check_admin_login_def split: option.splits)

text \<open>
  Claim C7. The result of \<^verbatim>\<open>check_admin_login\<close> is the same in any two worlds with the same
  secrets, whatever their spreadsheets, caches and sessions; the function makes no remote call;
  it returns true exactly when the configured admin email and password are the supplied
  strings. In the login flow the admin match comes first: when it succeeds (on non-empty
  inputs) the user is logged in as admin and nothing else happens, so no participant check is
  made and the spreadsheet and cache are not touched; only when it fails is the participant
  check made, and its output follows that of the admin check.
\<close>

theorem admin_login_noninterference:
  "(secrets w1 = secrets w2 \<longrightarrow> check_admin_login e p w1 = check_admin_login e p w2)
   \<and> \<not> list_ex is_remote (snd (check_admin_login e p w))
   \<and> (fst (check_admin_login e p w) =
        (\<exists>sec cfg. secrets w = Some sec \<and> sec ''admin'' = Some cfg
           \<and> cfg ''email'' = Some (PStr e) \<and> cfg ''password'' = Some (PStr p)))
   \<and> (e \<noteq> [] \<and> p \<noteq> [] \<and> fst (check_admin_login e p w) \<longrightarrow>
        show_login_page chk now e p w = (log_in ''admin'' e w, [Rerun]))
   \<and> (e \<noteq> [] \<and> p \<noteq> [] \<and> \<not> fst (check_admin_login e p w) \<longrightarrow>
        show_login_page chk now e p w =
          (let r = check_participant_login chk now e p w
           in (if fst r then log_in ''participant'' e (fst (snd r)) else fst (snd r),
               snd (check_admin_login e p w) @ snd (snd r)
                 @ [if fst r then Rerun else Show Error])))"
proof (intro conjI impI)
  assume "secrets w1 = secrets w2"
  then show "check_admin_login e p w1 = check_admin_login e p w2"
    by (simp add: check_admin_login_def)
next
  show "\<not> list_ex is_remote (snd (check_admin_login e p w))"
    by (auto simp: check_admin_login_def split: option.splits)
next
  show "fst (check_admin_login e p w) =
     (\<exists>sec cfg. secrets w = Some sec \<and> sec ''admin'' = Some cfg
        \<and> cfg ''email'' = Some (PStr e) \<and> cfg ''password'' = Some (PStr p))"
    by (rule check_admin_login_iff)
next
  assume a: "e \<noteq> [] \<and> p \<noteq> [] \<and> fst (check_admin_login e p w)"
  then have "check_admin_login e p w = (True, [])"
    using check_admin_login_events [of e p w] by (cases "check_admin_login e p w") auto
  with a show "show_login_page chk now e p w = (log_in ''admin'' e w, [Rerun])"
    by (simp add: show_login_page_def)
next
  assume a: "e \<noteq> [] \<and> p \<noteq> [] \<and> \<not> fst (check_admin_login e p w)"
  obtain evs0 where c: "check_admin_login e p w = (False, evs0)"
    using a by (cases "check_admin_login e p w") auto
  obtain b w' evs1 where r: "check_participant_login chk now e p w = (b, w', evs1)"
    by (cases "check_participant_login chk now e p w") auto
  show "show_login_page chk now e p w =
          (let r = check_participant_login chk now e p w
           in (if fst r then log_in ''participant'' e (fst (snd r)) else fst (snd r),
               snd (check_admin_login e p w) @ snd (snd r)
                 @ [if fst r then Rerun else Show Error]))"
    using a c r by (cases b) (simp_all add: show_login_page_def Let_def)
qed

theorem admin_login_noninterference_witness:
  "secrets demo_world = secrets (demo_world\<lparr>remote := Map.empty, session := demo_session\<rparr>)
   \<and> check_admin_login ''admin@x.com'' ''s3cret'' demo_world
       = check_admin_login ''admin@x.com'' ''s3cret''
           (demo_world\<lparr>remote := Map.empty, session := demo_session\<rparr>)
   \<and> fst (check_admin_login ''admin@x.com'' ''s3cret'' demo_world)
   \<and> show_login_page demo_check 0 ''admin@x.com'' ''s3cret'' demo_world
       = (log_in ''admin'' ''admin@x.com'' demo_world, [Rerun])
   \<and> \<not> fst (check_admin_login ''ada@x.com'' ''oldpass'' demo_world)
   \<and> user_role (session (fst (show_login_page demo_check 0 ''ada@x.com'' ''oldpass'' demo_world)))
       = Some ''participant''"
proof -
  let ?w' = "demo_world\<lparr>remote := Map.empty, session := demo_session\<rparr>"
  have s: "secrets demo_world = secrets ?w'"
    by simp
  have a: "fst (check_admin_login ''admin@x.com'' ''s3cret'' demo_world)"
    by (simp add: check_admin_login_def demo_world_def demo_secrets_def)
  have n: "\<not> fst (check_admin_login ''ada@x.com'' ''oldpass'' demo_world)"
    by (simp add: check_admin_login_def demo_world_def demo_secrets_def)
  have p: "fst (check_participant_login demo_check 0 ''ada@x.com'' ''oldpass'' demo_world)"
    by code_simp
  note inst1 = admin_login_noninterference
          [of demo_world ?w' "''admin@x.com''" "''s3cret''" demo_world demo_check 0]
  note inst2 = admin_login_noninterference
          [of demo_world demo_world "''ada@x.com''" "''oldpass''" demo_world demo_check 0]
  have e: "check_admin_login ''admin@x.com'' ''s3cret'' demo_world
       = check_admin_login ''admin@x.com'' ''s3cret'' ?w'"
    using inst1 s by blast
  have l: "show_login_page demo_check 0 ''admin@x.com'' ''s3cret'' demo_world
       = (log_in ''admin'' ''admin@x.com'' demo_world, [Rerun])"
    using inst1 a by simp
  have r: "user_role (session (fst (show_login_page demo_check 0 ''ada@x.com'' ''oldpass''
             demo_world))) = Some ''participant''"
    using inst2 n p by (simp add: Let_def log_in_def)
  show ?thesis
    using s e a l n r by blast
qed

subsection \<open>Notifier\<close>

lemma send_email_body_mailer_raises:
  assumes "\<And>s a. mail s a to_email subject message \<noteq> None"
  shows "fst (send_email_body mail to_email subject message w) \<noteq> Inr True"
proof -
  have "\<And>s a. \<exists>e. mail s a to_email subject message = Some e"
    using assms by auto
  then show ?thesis
    unfolding send_email_body_def Let_def
    by (auto split: option.splits) (metis option.distinct(1))+
qed

lemma send_email_mailer_raises:
  assumes "\<forall>s a. mail s a to_email subject message \<noteq> None"
  shows "fst (send_email_notification mail to_email subject message w) = Inr False"
proof -
  have "fst (send_email_body mail to_email subject message w) \<noteq> Inr True"
    using assms by (intro send_email_body_mailer_raises) simp
  then show ?thesis
    by (auto simp: send_email_notification_def split: prod.splits sum.splits)
qed

lemma send_email_true_sent:
  assumes "fst (send_email_notification mail to_email subject message w) = Inr True"
  shows "\<exists>s a. mail s a to_email subject message = None"
    and "MailAttempt to_email subject message
           \<in> set (snd (send_email_notification mail to_email subject message w))"
  using assms
  by (auto simp: send_email_notification_def send_email_body_def Let_def
        split: prod.splits sum.splits option.splits if_splits)

lemma notify_true_sent:
  assumes "fst (notify_participant mail email pname team kind project w) = Inr True"
  shows "\<exists>s a subj body. mail s a email subj body = None
           \<and> MailAttempt email subj body
               \<in> set (snd (notify_participant mail email pname team kind project w))"
proof -
  from assms obtain subj body where
    r: "render_notification email (clean_string pname) (clean_string team) kind
      (if truthy project then PStr (clean_string project) else PNone) = Some (subj, body)"
    by (auto simp: notify_participant_def notify_body_def Let_def
          split: option.splits prod.splits sum.splits)
  obtain x evs where s: "send_email_notification mail email subj body w = (x, evs)"
    by (cases "send_email_notification mail email subj body w")
  with assms r have x: "x = Inr True"
    by (auto simp: notify_participant_def notify_body_def Let_def split: sum.splits)
  then have "fst (send_email_notification mail email subj body w) = Inr True"
    using s by simp
  from send_email_true_sent [OF this] s r x show ?thesis
    by (auto simp: notify_participant_def notify_body_def Let_def)
qed

text \<open>
  Claim C8. For every input, \<^verbatim>\<open>notify_participant\<close> returns a boolean and lets no exception
  escape. It returns false, after a warning and without handing anything to the mail
  provider, when the notification type is none of \<^verbatim>\<open>team_assignment\<close>,
  \<^verbatim>\<open>project_assignment\<close>, \<^verbatim>\<open>password_reset\<close>, and when the type is \<^verbatim>\<open>project_assignment\<close> and
  no project name is given (\<^verbatim>\<open>None\<close> or empty). It returns true only when the message was
  handed to the mail provider and the provider did not raise; so a failing send gives false,
  and with a provider that raises on every send the result is always false.
\<close>

theorem notify_participant_boundary:
  "(\<exists>b. fst (notify_participant mail email pname team kind project w) = Inr b)
   \<and> (kind \<noteq> PStr ''team_assignment'' \<and> kind \<noteq> PStr ''project_assignment''
        \<and> kind \<noteq> PStr ''password_reset'' \<longrightarrow>
        notify_participant mail email pname team kind project w = (Inr False, [Show Warning]))
   \<and> (kind = PStr ''project_assignment'' \<and> \<not> truthy project \<longrightarrow>
        notify_participant mail email pname team kind project w = (Inr False, [Show Warning]))
   \<and> (fst (notify_participant mail email pname team kind project w) = Inr True \<longrightarrow>
        (\<exists>s a subj body. mail s a email subj body = None
           \<and> MailAttempt email subj body
               \<in> set (snd (notify_participant mail email pname team kind project w))))
   \<and> ((\<forall>s a t subj body. mail s a t subj body \<noteq> None) \<longrightarrow>
        fst (notify_participant mail email pname team kind project w) = Inr False)"
proof (intro conjI impI)
  show "\<exists>b. fst (notify_participant mail email pname team kind project w) = Inr b"
    by (auto simp: notify_participant_def split: prod.splits sum.splits)
next
  assume "fst (notify_participant mail email pname team kind project w) = Inr True"
  then show "\<exists>s a subj body. mail s a email subj body = None
           \<and> MailAttempt email subj body
               \<in> set (snd (notify_participant mail email pname team kind project w))"
    by (rule notify_true_sent)
next
  assume "kind \<noteq> PStr ''team_assignment'' \<and> kind \<noteq> PStr ''project_assignment''
        \<and> kind \<noteq> PStr ''password_reset''"
  then have "render_notification email (clean_string pname) (clean_string team) kind
      (if truthy project then PStr (clean_string project) else PNone) = None"
    by (cases kind) (auto simp: render_notification_def)
  then show "notify_participant mail email pname team kind project w
      = (Inr False, [Show Warning])"
    by (simp add: notify_participant_def notify_body_def Let_def)
next
  assume "kind = PStr ''project_assignment'' \<and> \<not> truthy project"
  then have "render_notification email (clean_string pname) (clean_string team) kind
      (if truthy project then PStr (clean_string project) else PNone) = None"
    by (simp add: render_notification_def)
  then show "notify_participant mail email pname team kind project w
      = (Inr False, [Show Warning])"
    by (simp add: notify_participant_def notify_body_def Let_def)
next
  assume m: "\<forall>s a t subj body. mail s a t subj body \<noteq> None"
  have s: "\<And>subj body. fst (send_email_notification mail email subj body w) = Inr False"
    using m by (intro send_email_mailer_raises) simp
  show "fst (notify_participant mail email pname team kind project w) = Inr False"
  proof (cases "render_notification email (clean_string pname) (clean_string team) kind
      (if truthy project then PStr (clean_string project) else PNone)")
    case None
    then show ?thesis by (simp add: notify_participant_def notify_body_def Let_def)
  next
    case (Some sm)
    obtain subj body where sm: "sm = (subj, body)" by (cases sm)
    obtain evs where "send_email_notification mail email subj body w = (Inr False, evs)"
      using s [of subj body] by (cases "send_email_notification mail email subj body w") auto
    with Some sm show ?thesis by (simp add: notify_participant_def notify_body_def Let_def)
  qed
qed

theorem notify_participant_boundary_witness:
  "notify_participant demo_mail_down (PStr ''ada@x.com'') (PStr ''Ada'') (PStr ''Team1'')
       (PStr ''newsletter'') PNone demo_world = (Inr False, [Show Warning])
   \<and> notify_participant demo_mail_down (PStr ''ada@x.com'') (PStr ''Ada'') (PStr ''Team1'')
       (PStr ''project_assignment'') PNone demo_world = (Inr False, [Show Warning])
   \<and> (\<forall>s a t subj body. demo_mail_down s a t subj body \<noteq> None)
   \<and> fst (notify_participant demo_mail_down (PStr ''ada@x.com'') (PStr ''Ada'') (PStr ''Team1'')
       (PStr ''team_assignment'') PNone demo_world) = Inr False"
  using notify_participant_boundary
          [of demo_mail_down "PStr ''ada@x.com''" "PStr ''Ada''" "PStr ''Team1''"
              "PStr ''newsletter''" PNone demo_world]
        notify_participant_boundary
          [of demo_mail_down "PStr ''ada@x.com''" "PStr ''Ada''" "PStr ''Team1''"
              "PStr ''project_assignment''" PNone demo_world]
        notify_participant_boundary
          [of demo_mail_down "PStr ''ada@x.com''" "PStr ''Ada''" "PStr ''Team1''"
              "PStr ''team_assignment''" PNone demo_world]
  by (simp add: demo_mail_down_def)


subsection \<open>Signup\<close>

text \<open>
  Claim C9, as the claim states it, fails: \<^verbatim>\<open>signup.py\<close> has no required-field check. The form
  submitted as it is first shown, with empty name and email, is written like any other.
\<close>

theorem signup_no_required_check_counterexample:
  "name_field empty_form = [] \<and> email_field empty_form = []
   \<and> submit empty_form (Inr demo_participants_sheet) None
       = (Some (demo_participants_sheet @ [new_data empty_form]),
          [Remote ''sheet1'' (AppendRow (new_data empty_form)), Show Success])"
  by (simp add: submit_def empty_form_def append_row_def)


text \<open>
  Claim C9, amended. A submission makes no required-field check. Every submission that reaches
  the worksheet attempts exactly one write, an append of one row of 19 values whose last is
  the string \<^verbatim>\<open>Pending\<close>; when the append succeeds the first worksheet of the spreadsheet is
  the old one followed by that row; when the worksheet cannot be reached nothing is written.
  The submission with name \<^verbatim>\<open>Ada\<close> and email \<^verbatim>\<open>ada@x.com\<close> appends a row that starts with
  these two values and ends in \<^verbatim>\<open>Pending\<close>.
\<close>

theorem signup_appends_pending_row:
  "submit f (Inr ws) None
     = (Some (ws @ [new_data f]), [Remote ''sheet1'' (AppendRow (new_data f)), Show Success])
   \<and> length (filter is_write (snd (submit f (Inr ws) append_fault))) = 1
   \<and> \<not> list_ex is_write (snd (submit f (Inl e) append_fault))
   \<and> length (new_data f) = 19
   \<and> last (new_data f) = PStr ''Pending''
   \<and> take 2 (new_data ada_form) = [PStr ''Ada'', PStr ''ada@x.com'']
   \<and> last (new_data ada_form) = PStr ''Pending''"
  by (cases append_fault) (simp_all add: submit_def append_row_def new_data_def ada_form_def)


theorem signup_appends_pending_row_witness:
  "fst (submit ada_form (Inr demo_participants_sheet) None)
     = Some (demo_participants_sheet @ [new_data ada_form])
   \<and> last (new_data ada_form) = PStr ''Pending''
   \<and> length (filter is_write
        (snd (submit ada_form (Inr demo_participants_sheet) (Some (APIError ''500''))))) = 1"
  using signup_appends_pending_row
          [of ada_form demo_participants_sheet "Some (APIError ''500'')" "APIError ''500''"]
  by simp

subsection \<open>Row offsets\<close>

lemma first_index_SomeD:
  "first_index P xs = Some k \<Longrightarrow> k < length xs \<and> P (xs ! k) \<and> (\<forall>j<k. \<not> P (xs ! j))"
proof (induction xs arbitrary: k)
  case Nil
  then show ?case by simp
next
  case (Cons x xs)
  show ?case
  proof (cases "P x")
    case True
    with Cons.prems show ?thesis by simp
  next
    case False
    with Cons.prems obtain k' where k': "first_index P xs = Some k'" "k = Suc k'"
      by auto
    from Cons.IH [OF k'(1)] False k'(2) show ?thesis
      by (auto simp: nth_Cons split: nat.splits)
  qed
qed


lemma records_after_delete:
  assumes "k < length (get_all_records ws)"
  shows "\<exists>ws'. delete_rows ws (k + 2) = Inr ws'
           \<and> get_all_records ws'
               = take k (get_all_records ws) @ drop (Suc k) (get_all_records ws)"
proof (cases ws)
  case Nil
  with assms show ?thesis by (simp add: get_all_records_def)
next
  case (Cons keys vals)
  then have "delete_rows ws (k + 2) = Inr (keys # (take k vals @ drop (Suc k) vals))"
    by (simp add: delete_rows_def)
  then show ?thesis
    using Cons by (simp add: get_all_records_def take_map drop_map)
qed


lemma py_eq_cell_has_column:
  assumes "py_eq (df_cell row c) v" and "row \<in> set data"
  shows "df_has_column data c"
proof -
  from assms(1) have "map_of row c \<noteq> None"
    by (auto simp: df_cell_def dict_get_def split: option.splits)
  then have "c \<in> set (map fst row)"
    by (metis map_of_eq_None_iff set_map)
  with assms(2) show ?thesis
    by (auto simp: df_has_column_def list_ex_iff)
qed

lemma records_after_update:
  assumes "k < length (get_all_records ws)"
  shows "update_row_from_A ws (k + 2) vals
           = Inr (ws[Suc k := vals @ drop (length vals) (ws ! Suc k)])"
    and "length (get_all_records (ws[Suc k := r])) = length (get_all_records ws)"
    and "j < length (get_all_records ws) \<Longrightarrow> j \<noteq> k
           \<Longrightarrow> get_all_records (ws[Suc k := r]) ! j = get_all_records ws ! j"
proof -
  from assms obtain keys vals' where ws: "ws = keys # vals'" and k: "k < length vals'"
    by (cases ws) (auto simp: get_all_records_def)
  show "update_row_from_A ws (k + 2) vals
           = Inr (ws[Suc k := vals @ drop (length vals) (ws ! Suc k)])"
    using ws k by (simp add: update_row_from_A_def)
  show "length (get_all_records (ws[Suc k := r])) = length (get_all_records ws)"
    using ws by (simp add: get_all_records_def)
  show "j < length (get_all_records ws) \<Longrightarrow> j \<noteq> k
           \<Longrightarrow> get_all_records (ws[Suc k := r]) ! j = get_all_records ws ! j"
    using ws k by (simp add: get_all_records_def nth_list_update)
qed

lemma write_password_hash_hit:
  assumes r: "remote w sheet = Some pws"
    and f: "first_index (\<lambda>row. py_eq (dict_get row ''Email'' PNone) (PStr email))
              (get_all_records pws) = Some k"
    and h: "first_index (\<lambda>h. h = ''PasswordHash'') hdrs = Some pc"
  shows "write_password_hash sheet (get_all_records pws) hdrs email hash w
     = (Inr True,
        w\<lparr>remote := (remote w)(sheet \<mapsto>
            pws[Suc k :=
                 (map (\<lambda>header. dict_get (get_all_records pws ! k) header (PStr [])) hdrs)
                   [pc := PStr hash]
                 @ drop (length hdrs) (pws ! Suc k)])\<rparr>,
        [Remote sheet (UpdateRange (''A'' @ show_nat (k + 2))
           [(map (\<lambda>header. dict_get (get_all_records pws ! k) header (PStr [])) hdrs)
              [pc := PStr hash] ])])"
proof -
  from first_index_SomeD [OF f] have k: "k < length (get_all_records pws)"
    by auto
  have u: "\<And>vals. update_row_from_A pws (Suc (Suc k)) vals
             = Inr (pws[Suc k := vals @ drop (length vals) (pws ! Suc k)])"
    using records_after_update(1) [OF k] by simp
  show ?thesis
    by (simp add: write_password_hash_def Let_def r f h u)
qed


text \<open>
  Claim C3. Let the snapshot be the records of the remote worksheet (so its order is the
  remote order), and let \<open>k\<close> be the 0-based position of the targeted record: the first team
  row with the chosen name, the first like of this user on this update, the first participant
  with the given email. Then deleting the team or the like issues exactly
  \<^verbatim>\<open>delete_rows(k + 2)\<close>, after which the records of the worksheet are those of the
  snapshot without position \<open>k\<close>; and overwriting the participant's row issues the update at
  \<^verbatim>\<open>A<k+2>\<close>, which replaces row \<open>k + 2\<close> of the grid and leaves every other record as it was.
\<close>

theorem row_offset_arithmetic:
  "(remote w ''Teams'' = Some tws
      \<and> first_index (\<lambda>row. py_eq (df_cell row ''TeamName'') team) (get_all_records tws)
          = Some k \<longrightarrow>
      snd (delete_team_row (get_all_records tws) team w)
        = [Remote ''Teams'' (DeleteRows (k + 2)), Show Success, Rerun]
      \<and> (\<exists>tws'. remote (fst (delete_team_row (get_all_records tws) team w)) ''Teams'' = Some tws'
            \<and> get_all_records tws'
                = take k (get_all_records tws) @ drop (Suc k) (get_all_records tws)))
   \<and> (remote w ''Likes'' = Some lws
      \<and> first_index (\<lambda>row. py_eq (df_cell row ''UpdateID'') update_id
                           \<and> py_eq (df_cell row ''Email'') (PStr liker)) (get_all_records lws)
          = Some k \<longrightarrow>
      snd (like_button (get_all_records lws) update_id liker w)
        = [Remote ''Likes'' (DeleteRows (k + 2)), Rerun]
      \<and> (\<exists>lws'. remote (fst (like_button (get_all_records lws) update_id liker w)) ''Likes''
              = Some lws'
            \<and> get_all_records lws'
                = take k (get_all_records lws) @ drop (Suc k) (get_all_records lws)))
   \<and> (remote w sheet = Some pws
      \<and> first_index (\<lambda>row. py_eq (dict_get row ''Email'' PNone) (PStr email))
            (get_all_records pws) = Some k
      \<and> first_index (\<lambda>h. h = ''PasswordHash'') hdrs = Some pc \<longrightarrow>
      (\<exists>row_data pws'.
          snd (snd (write_password_hash sheet (get_all_records pws) hdrs email hash w))
            = [Remote sheet (UpdateRange (''A'' @ show_nat (k + 2)) [row_data])]
        \<and> remote (fst (snd (write_password_hash sheet (get_all_records pws) hdrs email hash w)))
              sheet = Some pws'
        \<and> pws' = pws[Suc k := row_data @ drop (length row_data) (pws ! Suc k)]
        \<and> length (get_all_records pws') = length (get_all_records pws)
        \<and> (\<forall>j < length (get_all_records pws). j \<noteq> k \<longrightarrow>
              get_all_records pws' ! j = get_all_records pws ! j)))"
proof (intro conjI impI)
  let ?data = "get_all_records tws"
  let ?P = "\<lambda>row. py_eq (df_cell row ''TeamName'') team"
  assume a: "remote w ''Teams'' = Some tws \<and> first_index ?P ?data = Some k"
  then have r: "remote w ''Teams'' = Some tws" and f: "first_index ?P ?data = Some k"
    by simp_all
  from first_index_SomeD [OF f] have k: "k < length ?data" and m: "?P (?data ! k)"
    by auto
  have col: "df_has_column ?data ''TeamName''"
    using py_eq_cell_has_column [OF m] k by simp
  from records_after_delete [OF k] obtain tws' where
    d: "delete_rows tws (k + 2) = Inr tws'"
       "get_all_records tws' = take k ?data @ drop (Suc k) ?data"
    by auto
  have e: "delete_team_row ?data team w
      = (w\<lparr>remote := (remote w)(''Teams'' \<mapsto> tws'), session := clear_cache (session w)\<rparr>,
         [Remote ''Teams'' (DeleteRows (k + 2)), Show Success, Rerun])"
    using d(1) by (simp add: delete_team_row_def col f r)
  show "snd (delete_team_row ?data team w)
        = [Remote ''Teams'' (DeleteRows (k + 2)), Show Success, Rerun]"
    by (simp add: e)
  show "\<exists>tws'. remote (fst (delete_team_row ?data team w)) ''Teams'' = Some tws'
            \<and> get_all_records tws' = take k ?data @ drop (Suc k) ?data"
    by (simp add: e d(2))
next
  let ?data = "get_all_records lws"
  let ?P = "\<lambda>row. py_eq (df_cell row ''UpdateID'') update_id
                           \<and> py_eq (df_cell row ''Email'') (PStr liker)"
  assume a: "remote w ''Likes'' = Some lws \<and> first_index ?P ?data = Some k"
  then have r: "remote w ''Likes'' = Some lws" and f: "first_index ?P ?data = Some k"
    by simp_all
  from first_index_SomeD [OF f] have k: "k < length ?data" and m: "?P (?data ! k)"
    by auto
  have mem: "?data ! k \<in> set ?data" using k by simp
  have col: "df_has_column ?data ''UpdateID''" "df_has_column ?data ''Email''"
    using py_eq_cell_has_column [OF _ mem] m by auto
  have liked: "list_ex (\<lambda>row. py_eq (df_cell row ''Email'') (PStr liker))
                 (filter (\<lambda>row. py_eq (df_cell row ''UpdateID'') update_id) ?data)"
    using m mem by (auto simp: list_ex_iff)
  from records_after_delete [OF k] obtain lws' where
    d: "delete_rows lws (k + 2) = Inr lws'"
       "get_all_records lws' = take k ?data @ drop (Suc k) ?data"
    by auto
  have e: "like_button ?data update_id liker w
      = (w\<lparr>remote := (remote w)(''Likes'' \<mapsto> lws'), session := clear_cache (session w)\<rparr>,
         [Remote ''Likes'' (DeleteRows (k + 2)), Rerun])"
    using d(1) by (simp add: like_button_def Let_def col liked r f)
  show "snd (like_button ?data update_id liker w)
        = [Remote ''Likes'' (DeleteRows (k + 2)), Rerun]"
    by (simp add: e)
  show "\<exists>lws'. remote (fst (like_button ?data update_id liker w)) ''Likes'' = Some lws'
            \<and> get_all_records lws' = take k ?data @ drop (Suc k) ?data"
    by (simp add: e d(2))
next
  let ?data = "get_all_records pws"
  let ?P = "\<lambda>row. py_eq (dict_get row ''Email'' PNone) (PStr email)"
  assume a: "remote w sheet = Some pws \<and> first_index ?P ?data = Some k
      \<and> first_index (\<lambda>h. h = ''PasswordHash'') hdrs = Some pc"
  then have r: "remote w sheet = Some pws" and f: "first_index ?P ?data = Some k"
    and h: "first_index (\<lambda>h. h = ''PasswordHash'') hdrs = Some pc"
    by simp_all
  from first_index_SomeD [OF f] have k: "k < length ?data"
    by auto
  define row_data where
    "row_data = (map (\<lambda>header. dict_get (?data ! k) header (PStr [])) hdrs)[pc := PStr hash]"
  let ?pws' = "pws[Suc k := row_data @ drop (length row_data) (pws ! Suc k)]"
  have "snd (snd (write_password_hash sheet ?data hdrs email hash w))
            = [Remote sheet (UpdateRange (''A'' @ show_nat (k + 2)) [row_data])]
        \<and> remote (fst (snd (write_password_hash sheet ?data hdrs email hash w))) sheet
            = Some ?pws'"
    by (simp add: write_password_hash_hit [OF r f h] row_data_def)
  moreover have "length (get_all_records ?pws') = length ?data"
    by (rule records_after_update(2) [OF k])
  moreover have "\<forall>j < length ?data. j \<noteq> k \<longrightarrow> get_all_records ?pws' ! j = ?data ! j"
    using records_after_update(3) [OF k] by simp
  ultimately show "\<exists>row_data pws'.
          snd (snd (write_password_hash sheet ?data hdrs email hash w))
            = [Remote sheet (UpdateRange (''A'' @ show_nat (k + 2)) [row_data])]
        \<and> remote (fst (snd (write_password_hash sheet ?data hdrs email hash w))) sheet = Some pws'
        \<and> pws' = pws[Suc k := row_data @ drop (length row_data) (pws ! Suc k)]
        \<and> length (get_all_records pws') = length ?data
        \<and> (\<forall>j < length ?data. j \<noteq> k \<longrightarrow> get_all_records pws' ! j = ?data ! j)"
    by blast
qed

theorem row_offset_arithmetic_witness:
  "remote demo_world ''Teams'' = Some demo_teams_sheet
   \<and> first_index (\<lambda>row. py_eq (df_cell row ''TeamName'') (PStr ''Team2''))
        (get_all_records demo_teams_sheet) = Some 1
   \<and> snd (delete_team_row (get_all_records demo_teams_sheet) (PStr ''Team2'') demo_world)
       = [Remote ''Teams'' (DeleteRows 3), Show Success, Rerun]
   \<and> remote demo_world ''Likes'' = Some demo_likes_sheet
   \<and> first_index (\<lambda>row. py_eq (df_cell row ''UpdateID'') (PStr ''upd_1'')
                         \<and> py_eq (df_cell row ''Email'') (PStr ''ada@x.com''))
        (get_all_records demo_likes_sheet) = Some 1
   \<and> snd (like_button (get_all_records demo_likes_sheet) (PStr ''upd_1'') ''ada@x.com''
             demo_world)
       = [Remote ''Likes'' (DeleteRows 3), Rerun]
   \<and> remote demo_world ''Participants_list'' = Some demo_participants_sheet
   \<and> first_index (\<lambda>row. py_eq (dict_get row ''Email'' PNone) (PStr ''bob@x.com''))
        (get_all_records demo_participants_sheet) = Some 1
   \<and> first_index (\<lambda>h. h = ''PasswordHash'') [''Name'', ''Email'', ''Team'', ''PasswordHash'']
       = Some 3
   \<and> snd (snd (write_password_hash ''Participants_list''
                  (get_all_records demo_participants_sheet)
                  [''Name'', ''Email'', ''Team'', ''PasswordHash''] ''bob@x.com'' ''h:new''
                  demo_world))
       = [Remote ''Participants_list'' (UpdateRange ''A3''
            [ [PStr ''Bob'', PStr ''bob@x.com'', PStr ''Team1'', PStr ''h:new''] ])]"
proof -
  let ?hdrs = "[''Name'', ''Email'', ''Team'', ''PasswordHash'']"
  have t: "remote demo_world ''Teams'' = Some demo_teams_sheet"
    and l: "remote demo_world ''Likes'' = Some demo_likes_sheet"
    and p: "remote demo_world ''Participants_list'' = Some demo_participants_sheet"
    by (simp_all add: demo_world_def)
  have ft: "first_index (\<lambda>row. py_eq (df_cell row ''TeamName'') (PStr ''Team2''))
        (get_all_records demo_teams_sheet) = Some 1"
    by code_simp
  have fl: "first_index (\<lambda>row. py_eq (df_cell row ''UpdateID'') (PStr ''upd_1'')
                         \<and> py_eq (df_cell row ''Email'') (PStr ''ada@x.com''))
        (get_all_records demo_likes_sheet) = Some 1"
    by code_simp
  have fp: "first_index (\<lambda>row. py_eq (dict_get row ''Email'' PNone) (PStr ''bob@x.com''))
        (get_all_records demo_participants_sheet) = Some 1"
    by code_simp
  have fh: "first_index (\<lambda>h. h = ''PasswordHash'') ?hdrs = Some 3"
    by simp
  note inst = row_offset_arithmetic
          [of demo_world demo_teams_sheet "PStr ''Team2''" 1 demo_likes_sheet "PStr ''upd_1''"
              "''ada@x.com''" "''Participants_list''" demo_participants_sheet "''bob@x.com''"
              ?hdrs 3 "''h:new''"]
  have ct: "snd (delete_team_row (get_all_records demo_teams_sheet) (PStr ''Team2'') demo_world)
       = [Remote ''Teams'' (DeleteRows 3), Show Success, Rerun]"
    using inst t ft by simp
  have cl: "snd (like_button (get_all_records demo_likes_sheet) (PStr ''upd_1'') ''ada@x.com''
             demo_world)
       = [Remote ''Likes'' (DeleteRows 3), Rerun]"
    using inst l fl by simp
  have cp: "snd (snd (write_password_hash ''Participants_list''
                  (get_all_records demo_participants_sheet) ?hdrs ''bob@x.com'' ''h:new''
                  demo_world))
       = [Remote ''Participants_list'' (UpdateRange ''A3''
            [ [PStr ''Bob'', PStr ''bob@x.com'', PStr ''Team1'', PStr ''h:new''] ])]"
    by code_simp
  show ?thesis
    using t l p ft fl fp fh ct cl cp by simp
qed


subsection \<open>Password reset\<close>


lemma participants_handle_simps [simp]:
  "remote (participants_handle w) = remote w"
  "read_fault (participants_handle w) = read_fault w"
  "header_fault (participants_handle w) = header_fault w"
  "write_fault (participants_handle w) = write_fault w"
  "secrets (participants_handle w) = secrets w"
  "sheet_data_cache (session (participants_handle w)) = sheet_data_cache (session w)"
  "last_sheet_refresh (session (participants_handle w)) = last_sheet_refresh (session w)"
  by (simp_all add: participants_handle_def)

lemma ws_get_all_records_handle [simp]:
  "ws_get_all_records (participants_handle w) sheet_name = ws_get_all_records w sheet_name"
  by (simp add: ws_get_all_records_def split: option.splits)










subsection \<open>Participant login\<close>












subsection \<open>Cache invalidation after writes\<close>

lemma clear_cache_empty:
  "sheet_data_cache (clear_cache st) sheet_name = None"
  by (simp add: clear_cache_def)

lemma delete_team_row_clears_cache:
  assumes "Rerun \<in> set (snd (delete_team_row teams_data team w))"
  shows "sheet_data_cache (session (fst (delete_team_row teams_data team w))) = Map.empty"
  using assms
  by (auto simp: delete_team_row_def Let_def clear_cache_def
        split: if_splits option.splits sum.splits)

lemma like_button_clears_cache:
  assumes "Rerun \<in> set (snd (like_button likes_data update_id liker w))"
  shows "sheet_data_cache (session (fst (like_button likes_data update_id liker w))) = Map.empty"
  using assms
  by (auto simp: like_button_def Let_def clear_cache_def
        split: if_splits option.splits sum.splits)

lemma reset_password_form_clears_cache:
  assumes "fst (reset_participant_password gen selected_email pw w)"
    and "pw \<noteq> []" and "6 \<le> length pw"
  shows "sheet_data_cache
           (session (fst (reset_password_form gen mail df selected_email pw pw notify w)))
         = Map.empty"
  using assms
  by (auto simp: reset_password_form_def Let_def clear_cache_def split: prod.splits bool.splits)

text \<open>
  Claim C4 holds for the forms above (each clears the cache before it asks for the rerun) but
  not for the password change: the sidebar form of the participant view writes the new hash
  and never calls \<^verbatim>\<open>clear_cache\<close>. Ada changes her password from \<^verbatim>\<open>oldpass\<close> to \<^verbatim>\<open>newpass\<close> at
  time 0. The form reports success and the sheet holds the new hash, but the session still
  holds the snapshot that the check of the current password fetched, with the old hash; one
  second later, in the same session, the login still refuses the new password and accepts
  the old one.
\<close>

theorem change_password_keeps_stale_cache:
  "Show Success \<in> set (snd demo_after_change)
   \<and> \<not> list_ex (\<lambda>e. e = Rerun) (snd demo_after_change)
   \<and> remote (fst demo_after_change) ''Participants_list''
       = Some [ [PStr ''Name'', PStr ''Email'', PStr ''Team'', PStr ''PasswordHash''],
               [PStr ''Ada'', PStr ''ada@x.com'', PStr ''Team1'', PStr ''h:newpass''],
               [PStr ''Bob'', PStr ''bob@x.com'', PStr ''Team1'', PStr [] ] ]
   \<and> sheet_data_cache (session (fst demo_after_change)) ''Participants_list''
       = Some (get_all_records demo_participants_sheet)
   \<and> fst (check_participant_login demo_check 1000000 ''ada@x.com'' ''newpass''
            (fst demo_after_change)) = False
   \<and> fst (check_participant_login demo_check 1000000 ''ada@x.com'' ''oldpass''
            (fst demo_after_change)) = True"
  by code_simp

end
